theory Spec2Isabelle
  imports Main
begin

section \<open>Values shared by the services\<close>

text \<open>
  The services of \<^verbatim>\<open>src/project\<close> are thin functions over an object-relational mapper.
  Each is embedded as a function that takes the world (the tables of the data store and
  the trace of the effects performed so far) and returns its outcome with the new world.
  An outcome is \<open>Inl e\<close> when the Python raises \<open>e\<close> and \<open>Inr r\<close> when it returns \<open>r\<close>.
\<close>

text \<open>
  \<^verbatim>\<open>prisma.enums.Role\<close>: the enumeration with the members \<^verbatim>\<open>ADMIN\<close> and \<^verbatim>\<open>USER\<close>,
  the type of the role column. The modules createUser, addUserRole and updateUser each
  declare an enumeration \<^verbatim>\<open>Role\<close> of their own by the annotations \<^verbatim>\<open>ADMIN: str\<close> and
  \<^verbatim>\<open>USER: str\<close> alone, which gives it no member. A role a caller passes to these services is
  a value of which the code reads \<^verbatim>\<open>name\<close> or \<^verbatim>\<open>value\<close>, as the members of
  \<^verbatim>\<open>prisma.enums.Role\<close> have them.
\<close>

datatype Role = ADMIN | USER

fun Role_name :: "Role \<Rightarrow> string" where
  "Role_name ADMIN = ''ADMIN''"
| "Role_name USER = ''USER''"

text \<open>
  The exceptions the services raise themselves or receive from the libraries they call.
  \<^item> \<open>ValueError msg\<close>: Python's \<^verbatim>\<open>ValueError(msg)\<close>;
  \<^item> \<open>HTTPException code detail\<close>: FastAPI's \<^verbatim>\<open>HTTPException(status_code, detail)\<close>;
  \<^item> \<open>HTTPStatusError msg\<close>: raised by httpx's \<^verbatim>\<open>raise_for_status\<close>;
  \<^item> \<open>TransportError msg\<close>: the request of httpx got no reply;
  \<^item> \<open>ValidationError msg\<close>: pydantic refuses a value for a declared field;
  \<^item> \<open>UniqueViolationError msg\<close>: the data store refuses a second row with the same
    value in a unique column;
  \<^item> \<open>KeyError msg\<close>: a lookup by name in an enumeration that has no such member;
  \<^item> \<open>AttributeError msg\<close>: a method is called that the object does not have.
  All of them are subclasses of Python's \<^verbatim>\<open>Exception\<close>; \<open>msg\<close> is the text \<^verbatim>\<open>str\<close> gives.
\<close>

datatype exn =
    ValueError string
  | HTTPException int string
  | HTTPStatusError string
  | TransportError string
  | ValidationError string
  | UniqueViolationError string
  | KeyError string
  | AttributeError string

subsection \<open>Python's \<^verbatim>\<open>str\<close>\<close>

definition digit_char :: "nat \<Rightarrow> char" where
  "digit_char d = char_of (48 + d)"

fun str_nat :: "nat \<Rightarrow> string" where
  "str_nat n = (if n < 10 then [digit_char n] else str_nat (n div 10) @ [digit_char (n mod 10)])"

declare str_nat.simps [simp del]

definition str_int :: "int \<Rightarrow> string" where
  "str_int i = (if i < 0 then CHR ''-'' # str_nat (nat (- i)) else str_nat (nat i))"

text \<open>
  \<^verbatim>\<open>str(e)\<close>: the message of an exception. A \<^verbatim>\<open>ValueError\<close> prints its argument; an
  \<^verbatim>\<open>HTTPException\<close> prints its status code, a colon and its detail; the exceptions of the
  libraries carry the message the library composed.
\<close>

fun str_exn :: "exn \<Rightarrow> string" where
  "str_exn (ValueError msg) = msg"
| "str_exn (HTTPException code detail) = str_int code @ '': '' @ detail"
| "str_exn (HTTPStatusError msg) = msg"
| "str_exn (TransportError msg) = msg"
| "str_exn (ValidationError msg) = msg"
| "str_exn (UniqueViolationError msg) = msg"
| "str_exn (KeyError msg) = msg"
| "str_exn (AttributeError msg) = msg"

section \<open>What the services receive from outside\<close>

text \<open>
  The reply of the interpretation API: its status code and the value its JSON body
  holds under \<^verbatim>\<open>"explanation"\<close> (\<open>None\<close> when the key is absent or null).
\<close>

record http_reply =
  reply_status :: nat
  reply_explanation :: "string option"

text \<open>
  The environment of one request:
  \<^item> \<open>post url emoji\<close>: what \<^verbatim>\<open>client.post(url, json={"emoji": emoji})\<close> yields, a reply or
    the exception of a request that got none;
  \<^item> \<open>status_message\<close>: the text httpx gives the error of a reply without success;
  \<^item> \<open>gensalt\<close>, \<open>hashpw\<close>: \<^verbatim>\<open>bcrypt.gensalt()\<close> and \<^verbatim>\<open>bcrypt.hashpw\<close>;
  \<^item> \<open>clock k\<close>: the k-th reading of \<^verbatim>\<open>datetime.now()\<close>; \<open>isoformat\<close>: its text;
  \<^item> \<open>unique_message column\<close>, \<open>validation_message model field\<close>, \<open>key_message name\<close>:
    the texts the data-store client, pydantic and the enumeration give their errors;
  \<^item> \<open>int_of s\<close>: Python's \<^verbatim>\<open>int(s)\<close> on a string, the number or the \<^verbatim>\<open>ValueError\<close>.
\<close>

record env =
  post :: "string \<Rightarrow> string \<Rightarrow> exn + http_reply"
  status_message :: "http_reply \<Rightarrow> string"
  gensalt :: string
  hashpw :: "string \<Rightarrow> string \<Rightarrow> string"
  clock :: "nat \<Rightarrow> int"
  isoformat :: "int \<Rightarrow> string"
  unique_message :: "string \<Rightarrow> string"
  validation_message :: "string \<Rightarrow> string \<Rightarrow> string"
  key_message :: "string \<Rightarrow> string"
  int_of :: "string \<Rightarrow> exn + int"

section \<open>The data store\<close>

text \<open>
  The tables and the columns are those the services read and write through
  \<^verbatim>\<open>prisma.models\<close>: \<^verbatim>\<open>User\<close> (id, email, password, role), \<^verbatim>\<open>EmojiRequest\<close> (userId,
  emoji, explanation, status, createdAt) and \<^verbatim>\<open>EmojiExplanation\<close> (id, emoji,
  explanation). A table is the list of its rows in insertion order. \<^verbatim>\<open>User.email\<close> and
  \<^verbatim>\<open>EmojiExplanation.emoji\<close> are unique columns: the services look rows up by them with
  \<^verbatim>\<open>find_unique\<close>.
\<close>

record user =
  usr_id :: int
  usr_email :: string
  usr_password :: string
  usr_role :: Role

record emoji_request =
  req_userId :: int
  req_emoji :: string
  req_explanation :: "string option"
  req_status :: string
  req_createdAt :: int

record emoji_explanation =
  expl_id :: int
  expl_emoji :: string
  expl_explanation :: string

record store =
  users :: "user list"
  emojiRequests :: "emoji_request list"
  emojiExplanations :: "emoji_explanation list"

text \<open>
  Every call of the data-store client and every outbound HTTP request is an event;
  the world keeps the events in the order they happened.
\<close>

datatype table = TUser | TEmojiRequest | TEmojiExplanation

datatype db_op = FindUnique | FindMany | Create | Update | Delete | DeleteMany | Count

datatype event = Db table db_op | HttpPost string string

record world =
  db :: store
  trace :: "event list"

definition log :: "event \<Rightarrow> world \<Rightarrow> world" where
  "log ev s = s\<lparr>trace := trace s @ [ev]\<rparr>"

subsection \<open>The client's primitives\<close>

text \<open>
  \<^verbatim>\<open>find_unique\<close> returns the row or \<^verbatim>\<open>None\<close>; \<^verbatim>\<open>update\<close> and \<^verbatim>\<open>delete\<close> return
  \<^verbatim>\<open>None\<close> when no row matches; \<^verbatim>\<open>create\<close> and \<^verbatim>\<open>update\<close> raise when a unique column
  would hold a value twice; \<^verbatim>\<open>delete_many\<close> returns the number of rows removed. A new
  row gets an id larger than every id of its table.
\<close>

definition next_id :: "int list \<Rightarrow> int" where
  "next_id ids = fold max ids 0 + 1"

definition User_find_unique_id :: "int \<Rightarrow> world \<Rightarrow> user option \<times> world" where
  "User_find_unique_id i s =
     (find (\<lambda>u. usr_id u = i) (users (db s)), log (Db TUser FindUnique) s)"

definition User_find_unique_email :: "string \<Rightarrow> world \<Rightarrow> user option \<times> world" where
  "User_find_unique_email e s =
     (find (\<lambda>u. usr_email u = e) (users (db s)), log (Db TUser FindUnique) s)"

text \<open>\<^verbatim>\<open>find_unique\<close> with \<^verbatim>\<open>include\<close>: the row with the requests that refer to it.\<close>

definition User_find_unique_id_include_requests ::
  "int \<Rightarrow> world \<Rightarrow> (user \<times> emoji_request list) option \<times> world" where
  "User_find_unique_id_include_requests i s =
     (map_option (\<lambda>u. (u, filter (\<lambda>r. req_userId r = usr_id u) (emojiRequests (db s))))
        (find (\<lambda>u. usr_id u = i) (users (db s))),
      log (Db TUser FindUnique) s)"

definition User_create ::
  "env \<Rightarrow> string \<Rightarrow> string \<Rightarrow> Role \<Rightarrow> world \<Rightarrow> (exn + user) \<times> world" where
  "User_create en e p r s =
     (let s1 = log (Db TUser Create) s in
      if find (\<lambda>u. usr_email u = e) (users (db s)) \<noteq> None then
        (Inl (UniqueViolationError (unique_message en ''email'')), s1)
      else
        (let u = \<lparr>usr_id = next_id (map usr_id (users (db s))), usr_email = e,
                  usr_password = p, usr_role = r\<rparr>
         in (Inr u, s1\<lparr>db := (db s1)\<lparr>users := users (db s1) @ [u]\<rparr>\<rparr>)))"

text \<open>
  \<^verbatim>\<open>update(where={"id": i}, data=...)\<close>: \<open>email\<close> and \<open>role\<close> are the entries of
  \<^verbatim>\<open>data\<close>, \<open>None\<close> for an entry that is not there.
\<close>

definition User_update ::
  "env \<Rightarrow> int \<Rightarrow> string option \<Rightarrow> Role option \<Rightarrow> world \<Rightarrow> (exn + user option) \<times> world" where
  "User_update en i email role s =
     (let s1 = log (Db TUser Update) s in
      case find (\<lambda>u. usr_id u = i) (users (db s)) of
        None \<Rightarrow> (Inr None, s1)
      | Some u \<Rightarrow>
          if email \<noteq> None
             \<and> find (\<lambda>v. usr_email v = the email \<and> usr_id v \<noteq> i) (users (db s)) \<noteq> None
          then (Inl (UniqueViolationError (unique_message en ''email'')), s1)
          else
            (let upd = (\<lambda>v. v\<lparr>usr_email := (case email of None \<Rightarrow> usr_email v | Some e \<Rightarrow> e),
                               usr_role := (case role of None \<Rightarrow> usr_role v | Some r \<Rightarrow> r)\<rparr>)
             in (Inr (Some (upd u)),
                 s1\<lparr>db := (db s1)\<lparr>users :=
                       map (\<lambda>v. if usr_id v = i then upd v else v) (users (db s1))\<rparr>\<rparr>)))"

definition User_delete :: "int \<Rightarrow> world \<Rightarrow> user option \<times> world" where
  "User_delete i s =
     (let s1 = log (Db TUser Delete) s in
      case find (\<lambda>u. usr_id u = i) (users (db s)) of
        None \<Rightarrow> (None, s1)
      | Some u \<Rightarrow>
          (Some u, s1\<lparr>db := (db s1)\<lparr>users := filter (\<lambda>u. usr_id u \<noteq> i) (users (db s1))\<rparr>\<rparr>))"

definition EmojiRequest_delete_many_userId :: "int \<Rightarrow> world \<Rightarrow> nat \<times> world" where
  "EmojiRequest_delete_many_userId i s =
     (let s1 = log (Db TEmojiRequest DeleteMany) s;
          rs = emojiRequests (db s1)
      in (length (filter (\<lambda>r. req_userId r = i) rs),
          s1\<lparr>db := (db s1)\<lparr>emojiRequests := filter (\<lambda>r. req_userId r \<noteq> i) rs\<rparr>\<rparr>))"

text \<open>
  \<^verbatim>\<open>find_many(where={"status": st}, order={"createdAt": "desc"}, take=n)\<close>: the rows
  with that status, the latest first (rows of one instant in insertion order), cut after
  \<open>n\<close> rows.
\<close>

definition EmojiRequest_find_many_status ::
  "string \<Rightarrow> nat \<Rightarrow> world \<Rightarrow> emoji_request list \<times> world" where
  "EmojiRequest_find_many_status st n s =
     (take n (sort_key (\<lambda>r. - req_createdAt r)
                (filter (\<lambda>r. req_status r = st) (emojiRequests (db s)))),
      log (Db TEmojiRequest FindMany) s)"

definition EmojiRequest_count :: "world \<Rightarrow> (exn + int) \<times> world" where
  "EmojiRequest_count s =
     (Inr (int (length (emojiRequests (db s)))), log (Db TEmojiRequest Count) s)"

definition EmojiExplanation_find_unique_id ::
  "int \<Rightarrow> world \<Rightarrow> emoji_explanation option \<times> world" where
  "EmojiExplanation_find_unique_id i s =
     (find (\<lambda>r. expl_id r = i) (emojiExplanations (db s)), log (Db TEmojiExplanation FindUnique) s)"

definition EmojiExplanation_find_unique_emoji ::
  "string \<Rightarrow> world \<Rightarrow> emoji_explanation option \<times> world" where
  "EmojiExplanation_find_unique_emoji e s =
     (find (\<lambda>r. expl_emoji r = e) (emojiExplanations (db s)),
      log (Db TEmojiExplanation FindUnique) s)"

definition EmojiExplanation_create ::
  "env \<Rightarrow> string \<Rightarrow> string \<Rightarrow> world \<Rightarrow> (exn + emoji_explanation) \<times> world" where
  "EmojiExplanation_create en e x s =
     (let s1 = log (Db TEmojiExplanation Create) s in
      if find (\<lambda>r. expl_emoji r = e) (emojiExplanations (db s)) \<noteq> None then
        (Inl (UniqueViolationError (unique_message en ''emoji'')), s1)
      else
        (let r = \<lparr>expl_id = next_id (map expl_id (emojiExplanations (db s))), expl_emoji = e,
                  expl_explanation = x\<rparr>
         in (Inr r, s1\<lparr>db := (db s1)\<lparr>emojiExplanations := emojiExplanations (db s1) @ [r]\<rparr>\<rparr>)))"

section \<open>The services\<close>

subsection \<open>deleteUser\<close>

record DeleteUserResponse =
  dur_status :: string
  dur_message :: string

definition deleteUser :: "int \<Rightarrow> int \<Rightarrow> world \<Rightarrow> (exn + DeleteUserResponse) \<times> world" where
  "deleteUser userId approverId s =
     (case User_find_unique_id approverId s of (approver, s1) \<Rightarrow>
        if approver = None \<or> usr_role (the approver) \<noteq> ADMIN then
          (Inr \<lparr>dur_status = ''error'',
                dur_message = ''Approver is not authorized or does not exist.''\<rparr>, s1)
        else
          (case User_find_unique_id userId s1 of (usr, s2) \<Rightarrow>
             if usr = None then
               (Inr \<lparr>dur_status = ''error'', dur_message = ''User does not exist.''\<rparr>, s2)
             else if usr_role (the usr) = ADMIN then
               (Inr \<lparr>dur_status = ''error'',
                     dur_message = ''Cannot delete an admin user.''\<rparr>, s2)
             else
               (case EmojiRequest_delete_many_userId userId s2 of (_, s3) \<Rightarrow>
                  case User_delete userId s3 of (_, s4) \<Rightarrow>
                    (Inr \<lparr>dur_status = ''success'',
                          dur_message = ''User successfully deleted.''\<rparr>, s4))))"

subsection \<open>submitEmoji\<close>

record EmojiInterpretResponse =
  eir_emoji :: string
  eir_explanation :: string

definition interpret_url :: string where
  "interpret_url = ''https://api.emojiinterpreter.example.com/interpret''"

text \<open>\<^verbatim>\<open>response.raise_for_status()\<close>: every status outside 200..299 raises.\<close>

definition raise_for_status :: "env \<Rightarrow> http_reply \<Rightarrow> exn + unit" where
  "raise_for_status en response =
     (if 200 \<le> reply_status response \<and> reply_status response \<le> 299 then Inr ()
      else Inl (HTTPStatusError (status_message en response)))"

definition call_emoji_interpretation_service ::
  "env \<Rightarrow> string \<Rightarrow> world \<Rightarrow> (exn + string) \<times> world" where
  "call_emoji_interpretation_service en emoji s =
     (let s1 = log (HttpPost interpret_url emoji) s in
      case post en interpret_url emoji of
        Inl e \<Rightarrow> (Inl e, s1)
      | Inr response \<Rightarrow>
          (case raise_for_status en response of
             Inl e \<Rightarrow> (Inl e, s1)
           | Inr _ \<Rightarrow>
               (let interpreted_data = reply_explanation response in
                if interpreted_data \<noteq> None \<and> the interpreted_data \<noteq> [] then
                  (Inr (the interpreted_data), s1)
                else
                  (Inl (ValueError ''No interpretation was returned from the service.''), s1))))"

text \<open>
  The result of the call is a string, never \<^verbatim>\<open>None\<close>, so the test
  \<^verbatim>\<open>interpretation_result is not None\<close> holds whenever it is reached, and the
  \<^verbatim>\<open>raise\<close> in its \<^verbatim>\<open>else\<close> has no input.
\<close>

definition submitEmoji :: "env \<Rightarrow> string \<Rightarrow> world \<Rightarrow> (exn + EmojiInterpretResponse) \<times> world" where
  "submitEmoji en emoji s =
     (case call_emoji_interpretation_service en emoji s of
        (Inl e, s1) \<Rightarrow> (Inl e, s1)
      | (Inr interpretation_result, s1) \<Rightarrow>
          (case EmojiExplanation_find_unique_emoji emoji s1 of (existing_explanation, s2) \<Rightarrow>
             if existing_explanation = None then
               (case EmojiExplanation_create en emoji interpretation_result s2 of
                  (Inl e, s3) \<Rightarrow> (Inl e, s3)
                | (Inr _, s3) \<Rightarrow>
                    (Inr \<lparr>eir_emoji = emoji, eir_explanation = interpretation_result\<rparr>, s3))
             else
               (Inr \<lparr>eir_emoji = emoji, eir_explanation = interpretation_result\<rparr>, s2)))"

subsection \<open>fetchEmojiExplanation and fetchExplanation\<close>

record GetEmojiExplanationResponse =
  geer_emoji :: string
  geer_explanation :: "string option"

definition fetchEmojiExplanation ::
  "env \<Rightarrow> string \<Rightarrow> world \<Rightarrow> (exn + GetEmojiExplanationResponse) \<times> world" where
  "fetchEmojiExplanation en emoji_id s =
     (case int_of en emoji_id of
        Inl e \<Rightarrow> (Inl e, s)
      | Inr i \<Rightarrow>
          (case EmojiExplanation_find_unique_id i s of (emoji_record, s1) \<Rightarrow>
             (case emoji_record of
                None \<Rightarrow>
                  (Inl (ValueError (''No explanation found for emoji with id '' @ emoji_id)), s1)
              | Some r \<Rightarrow>
                  (Inr \<lparr>geer_emoji = expl_emoji r,
                        geer_explanation = Some (expl_explanation r)\<rparr>, s1))))"

record EmojiExplanationResponse =
  eer_emoji :: string
  eer_explanation :: string

definition fetchExplanation ::
  "env \<Rightarrow> string \<Rightarrow> world \<Rightarrow> (exn + EmojiExplanationResponse) \<times> world" where
  "fetchExplanation en ident s =
     (case int_of en ident of
        Inl e \<Rightarrow> (Inl e, s)
      | Inr i \<Rightarrow>
          (case EmojiExplanation_find_unique_id i s of (emoji_explanation, s1) \<Rightarrow>
             (case emoji_explanation of
                None \<Rightarrow> (Inl (ValueError ''No explanation found with the provided ID.''), s1)
              | Some r \<Rightarrow>
                  (Inr \<lparr>eer_emoji = expl_emoji r, eer_explanation = expl_explanation r\<rparr>, s1))))"

subsection \<open>fetchRecentEmojis\<close>

record EmojiInfo =
  ei_emoji :: string
  ei_explanation :: "string option"

record RecentEmojisResponse =
  emojis :: "EmojiInfo list"

definition fetchRecentEmojis :: "world \<Rightarrow> (exn + RecentEmojisResponse) \<times> world" where
  "fetchRecentEmojis s =
     (case EmojiRequest_find_many_status ''EXPLAINED'' 10 s of (recent_emojis, s1) \<Rightarrow>
        if recent_emojis = [] then
          (Inl (HTTPException 404 ''No recent emojis found.''), s1)
        else
          (Inr \<lparr>emojis = map (\<lambda>r. \<lparr>ei_emoji = req_emoji r, ei_explanation = req_explanation r\<rparr>)
                             recent_emojis\<rparr>, s1))"

subsection \<open>createUser and authenticateUser\<close>

record CreateUserResponse =
  cur_id :: int
  cur_username :: string
  cur_role :: Role

text \<open>
  \<^verbatim>\<open>Role[name]\<close> in the module createUser: the enumeration of the module has no member,
  so the lookup of the stored role raises a \<^verbatim>\<open>KeyError\<close>.
\<close>

definition Role_getitem :: "env \<Rightarrow> Role \<Rightarrow> exn + Role" where
  "Role_getitem en r = Inl (KeyError (key_message en (Role_name r)))"

definition createUser ::
  "env \<Rightarrow> string \<Rightarrow> string \<Rightarrow> Role \<Rightarrow> world \<Rightarrow> (exn + CreateUserResponse) \<times> world" where
  "createUser en username password role s =
     (let hashed_password = hashpw en password (gensalt en) in
      case User_create en username hashed_password role s of
        (Inl e, s1) \<Rightarrow> (Inl e, s1)
      | (Inr u, s1) \<Rightarrow>
          (case Role_getitem en (usr_role u) of
             Inl e \<Rightarrow> (Inl e, s1)
           | Inr r \<Rightarrow>
               (Inr \<lparr>cur_id = usr_id u, cur_username = usr_email u, cur_role = r\<rparr>, s1)))"

record UserAuthenticationResponse =
  jwt :: string
  error :: "string option"

definition authenticateUser ::
  "string \<Rightarrow> string \<Rightarrow> world \<Rightarrow> (exn + UserAuthenticationResponse) \<times> world" where
  "authenticateUser username password s =
     (case User_find_unique_email username s of (usr, s1) \<Rightarrow>
        if usr = None \<or> \<not> usr_password (the usr) = password then
          (Inr \<lparr>jwt = [], error = Some ''Invalid username or password''\<rparr>, s1)
        else
          (let token = ''example_token_for_'' @ str_int (usr_id (the usr))
           in (Inr \<lparr>jwt = token, error = None\<rparr>, s1)))"

subsection \<open>addUserRole, deleteUserRole and updateUser\<close>

record ManageUserRoleResponse =
  murr_success :: bool
  murr_message :: string

definition addUserRole ::
  "env \<Rightarrow> int \<Rightarrow> Role \<Rightarrow> world \<Rightarrow> (exn + ManageUserRoleResponse) \<times> world" where
  "addUserRole en user_id new_role s =
     (case User_find_unique_id user_id s of (usr, s1) \<Rightarrow>
        if usr = None then
          (Inr \<lparr>murr_success = False,
                murr_message = ''No user found with ID '' @ str_int user_id @ ''.''\<rparr>, s1)
        else
          (case User_update en user_id None (Some new_role) s1 of
             (Inr _, s2) \<Rightarrow>
               (Inr \<lparr>murr_success = True, murr_message = ''User role updated successfully.''\<rparr>, s2)
           | (Inl e, s2) \<Rightarrow>
               (Inr \<lparr>murr_success = False,
                     murr_message = ''Failed to update user role: '' @ str_exn e\<rparr>, s2)))"

record RemoveUserRoleResponse =
  rurr_success :: bool
  rurr_message :: string

definition deleteUserRole ::
  "env \<Rightarrow> int \<Rightarrow> world \<Rightarrow> (exn + RemoveUserRoleResponse) \<times> world" where
  "deleteUserRole en user_id s =
     (case User_find_unique_id user_id s of (usr, s1) \<Rightarrow>
        if usr = None then
          (Inr \<lparr>rurr_success = False, rurr_message = ''User not found.''\<rparr>, s1)
        else
          (case User_update en user_id None (Some USER) s1 of
             (Inr updated_user, s2) \<Rightarrow>
               (Inr \<lparr>rurr_success = True, rurr_message = ''User role updated successfully.''\<rparr>, s2)
           | (Inl e, s2) \<Rightarrow>
               (Inr \<lparr>rurr_success = False,
                     rurr_message = ''Failed to update user role: '' @ str_exn e\<rparr>, s2)))"

text \<open>
  The module's own model \<^verbatim>\<open>User\<close> (id, email, role) and the response that holds one.
  The field \<^verbatim>\<open>updated_user\<close> is declared \<^verbatim>\<open>User\<close>, not \<^verbatim>\<open>Optional[User]\<close>: building the
  response from \<^verbatim>\<open>None\<close> raises pydantic's \<^verbatim>\<open>ValidationError\<close>. Building it from a row of
  the data store raises as well: the field \<^verbatim>\<open>role\<close> of the module's \<^verbatim>\<open>User\<close> is the
  module's enumeration, which has no member for the role of the row.
\<close>

record User =
  User_id :: int
  User_email :: string
  User_role :: Role

record UpdateUserDetailsResponse =
  uudr_message :: string
  uudr_updated_user :: User

definition UpdateUserDetailsResponse_init ::
  "env \<Rightarrow> string \<Rightarrow> user option \<Rightarrow> exn + UpdateUserDetailsResponse" where
  "UpdateUserDetailsResponse_init en message updated_user =
     (case updated_user of
        None \<Rightarrow>
          Inl (ValidationError (validation_message en ''UpdateUserDetailsResponse''
                 ''updated_user''))
      | Some u \<Rightarrow>
          Inl (ValidationError (validation_message en ''UpdateUserDetailsResponse''
                 ''updated_user.role'')))"

definition updateUser ::
  "env \<Rightarrow> int \<Rightarrow> string option \<Rightarrow> Role option \<Rightarrow> world
     \<Rightarrow> (exn + UpdateUserDetailsResponse) \<times> world" where
  "updateUser en userId email role s =
     (if email \<noteq> None \<or> role \<noteq> None then
        (case User_update en userId email role s of
           (Inl e, s1) \<Rightarrow> (Inl e, s1)
         | (Inr updated_user, s1) \<Rightarrow>
             (UpdateUserDetailsResponse_init en ''User details updated successfully.''
                updated_user, s1))
      else
        (case User_find_unique_id userId s of (existing_user, s1) \<Rightarrow>
           (UpdateUserDetailsResponse_init en ''No updates applied.'' existing_user, s1)))"

subsection \<open>getUser\<close>

record UserDetailResponse =
  udr_username :: string
  udr_roles :: "string list"
  udr_creationDate :: int

definition getUser :: "env \<Rightarrow> int \<Rightarrow> world \<Rightarrow> (exn + UserDetailResponse) \<times> world" where
  "getUser en userId s =
     (case User_find_unique_id_include_requests userId s of (found, s1) \<Rightarrow>
        (case found of
           None \<Rightarrow> (Inl (ValueError ''User not found.''), s1)
         | Some (usr, requests) \<Rightarrow>
             (let username = usr_email usr;
                  roles = [Role_name (usr_role usr)];
                  creationDate =
                    (case requests of
                       [] \<Rightarrow> clock en 0
                     | r # rs \<Rightarrow> fold min (map req_createdAt rs) (req_createdAt r))
              in (Inr \<lparr>udr_username = username, udr_roles = roles,
                       udr_creationDate = creationDate\<rparr>, s1))))"

subsection \<open>getApiHealth and systemHealthCheck\<close>

record HealthCheckResponse =
  hcr_status :: string
  hcr_message :: string

definition getApiHealth :: "world \<Rightarrow> (exn + HealthCheckResponse) \<times> world" where
  "getApiHealth s =
     (case EmojiRequest_count s of
        (Inr emoji_requests, s1) \<Rightarrow>
          if emoji_requests \<ge> 0 then
            (Inr \<lparr>hcr_status = ''UP'',
                  hcr_message = ''API Gateway is running and accepting requests.''\<rparr>, s1)
          else
            (Inr \<lparr>hcr_status = ''UNKNOWN'',
                  hcr_message = ''Unable to determine the status.''\<rparr>, s1)
      | (Inl e, s1) \<Rightarrow> (Inr \<lparr>hcr_status = ''DOWN'', hcr_message = str_exn e\<rparr>, s1))"

record ComponentStatus =
  component_name :: string
  status :: string
  last_checked :: string

record SystemStatusResponse =
  uptime :: string
  health :: "(string \<times> string) list"
  details :: "ComponentStatus list"

definition systemHealthCheck ::
  "env \<Rightarrow> world \<Rightarrow> (exn + SystemStatusResponse) \<times> world" where
  "systemHealthCheck en s =
     (let component_details =
            [\<lparr>component_name = ''Response Manager'', status = ''Operational'',
              last_checked = isoformat en (clock en 0)\<rparr>,
             \<lparr>component_name = ''Emoji Interpreter'', status = ''Operational'',
              last_checked = isoformat en (clock en 1)\<rparr>];
          health_summary = map (\<lambda>comp. (component_name comp, status comp)) component_details
      in (Inr \<lparr>uptime = ''72 hours'', health = health_summary, details = component_details\<rparr>, s))"

section \<open>The router\<close>

text \<open>
  \<^verbatim>\<open>server.py\<close> binds every service to a route. Each handler calls its service inside
  \<^verbatim>\<open>try\<close> and returns its result; the \<^verbatim>\<open>except Exception\<close> clause puts \<^verbatim>\<open>str(e)\<close> under
  \<^verbatim>\<open>"error"\<close> in a dictionary and builds a \<^verbatim>\<open>Response\<close> from that dictionary, the status
  code 500 and the media type \<^verbatim>\<open>application/json\<close>.

  The constructor of \<^verbatim>\<open>Response\<close> renders its content at once: \<^verbatim>\<open>None\<close> is the
  empty body, bytes are the body as they are, and anything else is asked for
  \<^verbatim>\<open>content.encode(charset)\<close>. A string has this method; a dictionary has not, and the
  constructor raises an \<^verbatim>\<open>AttributeError\<close>.
\<close>

datatype content = No_content | Bytes string | Str string | Dict "(string \<times> string) list"

record Response =
  body :: string
  status_code :: nat
  media_type :: string

datatype 'a reply = Typed 'a | Raw Response

definition dict_encode_message :: string where
  "dict_encode_message =
     CHR 0x27 # ''dict'' @ CHR 0x27 # '' object has no attribute '' @ CHR 0x27 # ''encode''
       @ [CHR 0x27]"

definition render :: "content \<Rightarrow> exn + string" where
  "render c =
     (case c of
        No_content \<Rightarrow> Inr []
      | Bytes b \<Rightarrow> Inr b
      | Str x \<Rightarrow> Inr x
      | Dict d \<Rightarrow> Inl (AttributeError dict_encode_message))"

definition Response_init :: "content \<Rightarrow> nat \<Rightarrow> string \<Rightarrow> exn + Response" where
  "Response_init c code media =
     (case render c of
        Inl e \<Rightarrow> Inl e
      | Inr b \<Rightarrow> Inr \<lparr>body = b, status_code = code, media_type = media\<rparr>)"

text \<open>\<^verbatim>\<open>jsonable_encoder\<close> gives a dictionary of strings back as it is.\<close>

definition jsonable_encoder :: "(string \<times> string) list \<Rightarrow> (string \<times> string) list" where
  "jsonable_encoder d = d"

definition error_response :: "exn \<Rightarrow> exn + Response" where
  "error_response e =
     (let res = [(''error'', str_exn e)]
      in Response_init (Dict (jsonable_encoder res)) 500 ''application/json'')"

text \<open>
  The \<^verbatim>\<open>except\<close> clause of a handler: it returns the response when there is one, and
  what the constructor raises leaves the handler.
\<close>

definition except_clause :: "exn \<Rightarrow> world \<Rightarrow> (exn + 'a reply) \<times> world" where
  "except_clause e s =
     (case error_response e of
        Inl e' \<Rightarrow> (Inl e', s)
      | Inr r \<Rightarrow> (Inr (Raw r), s))"

text \<open>
  The status the client sees when an exception leaves a handler: FastAPI answers an
  \<^verbatim>\<open>HTTPException\<close> with its own status code; any other exception reaches the error
  middleware of the server, which answers with status 500 and the plain text
  "Internal Server Error".
\<close>

fun status_of_raise :: "exn \<Rightarrow> nat" where
  "status_of_raise (HTTPException code detail) = nat code"
| "status_of_raise e = 500"

definition api_get_fetchRecentEmojis :: "world \<Rightarrow> (exn + RecentEmojisResponse reply) \<times> world" where
  "api_get_fetchRecentEmojis s =
     (case fetchRecentEmojis s of
        (Inr res, s1) \<Rightarrow> (Inr (Typed res), s1)
      | (Inl e, s1) \<Rightarrow> except_clause e s1)"

definition api_get_fetchEmojiExplanation ::
  "env \<Rightarrow> string \<Rightarrow> world \<Rightarrow> (exn + GetEmojiExplanationResponse reply) \<times> world" where
  "api_get_fetchEmojiExplanation en emoji_id s =
     (case fetchEmojiExplanation en emoji_id s of
        (Inr res, s1) \<Rightarrow> (Inr (Typed res), s1)
      | (Inl e, s1) \<Rightarrow> except_clause e s1)"

definition api_get_getUser :: "env \<Rightarrow> int \<Rightarrow> world \<Rightarrow> (exn + UserDetailResponse reply) \<times> world" where
  "api_get_getUser en userId s =
     (case getUser en userId s of
        (Inr res, s1) \<Rightarrow> (Inr (Typed res), s1)
      | (Inl e, s1) \<Rightarrow> except_clause e s1)"

definition api_post_submitEmoji ::
  "env \<Rightarrow> string \<Rightarrow> world \<Rightarrow> (exn + EmojiInterpretResponse reply) \<times> world" where
  "api_post_submitEmoji en emoji s =
     (case submitEmoji en emoji s of
        (Inr res, s1) \<Rightarrow> (Inr (Typed res), s1)
      | (Inl e, s1) \<Rightarrow> except_clause e s1)"

definition api_get_systemHealthCheck ::
  "env \<Rightarrow> world \<Rightarrow> (exn + SystemStatusResponse reply) \<times> world" where
  "api_get_systemHealthCheck en s =
     (case systemHealthCheck en s of
        (Inr res, s1) \<Rightarrow> (Inr (Typed res), s1)
      | (Inl e, s1) \<Rightarrow> except_clause e s1)"

definition api_delete_deleteUserRole ::
  "env \<Rightarrow> int \<Rightarrow> world \<Rightarrow> (exn + RemoveUserRoleResponse reply) \<times> world" where
  "api_delete_deleteUserRole en user_id s =
     (case deleteUserRole en user_id s of
        (Inr res, s1) \<Rightarrow> (Inr (Typed res), s1)
      | (Inl e, s1) \<Rightarrow> except_clause e s1)"

definition api_get_fetchExplanation ::
  "env \<Rightarrow> string \<Rightarrow> world \<Rightarrow> (exn + EmojiExplanationResponse reply) \<times> world" where
  "api_get_fetchExplanation en ident s =
     (case fetchExplanation en ident s of
        (Inr res, s1) \<Rightarrow> (Inr (Typed res), s1)
      | (Inl e, s1) \<Rightarrow> except_clause e s1)"

definition api_post_addUserRole ::
  "env \<Rightarrow> int \<Rightarrow> Role \<Rightarrow> world \<Rightarrow> (exn + ManageUserRoleResponse reply) \<times> world" where
  "api_post_addUserRole en user_id new_role s =
     (case addUserRole en user_id new_role s of
        (Inr res, s1) \<Rightarrow> (Inr (Typed res), s1)
      | (Inl e, s1) \<Rightarrow> except_clause e s1)"

definition api_delete_deleteUser ::
  "int \<Rightarrow> int \<Rightarrow> world \<Rightarrow> (exn + DeleteUserResponse reply) \<times> world" where
  "api_delete_deleteUser userId approverId s =
     (case deleteUser userId approverId s of
        (Inr res, s1) \<Rightarrow> (Inr (Typed res), s1)
      | (Inl e, s1) \<Rightarrow> except_clause e s1)"

definition api_put_updateUser ::
  "env \<Rightarrow> int \<Rightarrow> string option \<Rightarrow> Role option \<Rightarrow> world
     \<Rightarrow> (exn + UpdateUserDetailsResponse reply) \<times> world" where
  "api_put_updateUser en userId email role s =
     (case updateUser en userId email role s of
        (Inr res, s1) \<Rightarrow> (Inr (Typed res), s1)
      | (Inl e, s1) \<Rightarrow> except_clause e s1)"

definition api_post_authenticateUser ::
  "string \<Rightarrow> string \<Rightarrow> world \<Rightarrow> (exn + UserAuthenticationResponse reply) \<times> world" where
  "api_post_authenticateUser username password s =
     (case authenticateUser username password s of
        (Inr res, s1) \<Rightarrow> (Inr (Typed res), s1)
      | (Inl e, s1) \<Rightarrow> except_clause e s1)"

definition api_get_getApiHealth :: "world \<Rightarrow> (exn + HealthCheckResponse reply) \<times> world" where
  "api_get_getApiHealth s =
     (case getApiHealth s of
        (Inr res, s1) \<Rightarrow> (Inr (Typed res), s1)
      | (Inl e, s1) \<Rightarrow> except_clause e s1)"

definition api_post_createUser ::
  "env \<Rightarrow> string \<Rightarrow> string \<Rightarrow> Role \<Rightarrow> world \<Rightarrow> (exn + CreateUserResponse reply) \<times> world" where
  "api_post_createUser en username password role s =
     (case createUser en username password role s of
        (Inr res, s1) \<Rightarrow> (Inr (Typed res), s1)
      | (Inl e, s1) \<Rightarrow> except_clause e s1)"

subsection \<open>Requests and their dispatch\<close>

text \<open>
  A request names the handler it reaches and carries that handler's arguments; a payload
  is the typed result of one of the thirteen services.
\<close>

datatype request =
    Req_fetchRecentEmojis
  | Req_fetchEmojiExplanation string
  | Req_getUser int
  | Req_submitEmoji string
  | Req_systemHealthCheck
  | Req_deleteUserRole int
  | Req_fetchExplanation string
  | Req_addUserRole int Role
  | Req_deleteUser int int
  | Req_updateUser int "string option" "Role option"
  | Req_authenticateUser string string
  | Req_getApiHealth
  | Req_createUser string string Role

datatype payload =
    P_RecentEmojis RecentEmojisResponse
  | P_GetEmojiExplanation GetEmojiExplanationResponse
  | P_UserDetail UserDetailResponse
  | P_EmojiInterpret EmojiInterpretResponse
  | P_SystemStatus SystemStatusResponse
  | P_RemoveUserRole RemoveUserRoleResponse
  | P_EmojiExplanation EmojiExplanationResponse
  | P_ManageUserRole ManageUserRoleResponse
  | P_DeleteUser DeleteUserResponse
  | P_UpdateUserDetails UpdateUserDetailsResponse
  | P_UserAuthentication UserAuthenticationResponse
  | P_HealthCheck HealthCheckResponse
  | P_CreateUser CreateUserResponse

text \<open>The service behind a request, and the handler that wraps it.\<close>

fun service :: "env \<Rightarrow> request \<Rightarrow> world \<Rightarrow> (exn + payload) \<times> world" where
  "service en Req_fetchRecentEmojis s = apfst (map_sum id P_RecentEmojis) (fetchRecentEmojis s)"
| "service en (Req_fetchEmojiExplanation emoji_id) s =
     apfst (map_sum id P_GetEmojiExplanation) (fetchEmojiExplanation en emoji_id s)"
| "service en (Req_getUser userId) s = apfst (map_sum id P_UserDetail) (getUser en userId s)"
| "service en (Req_submitEmoji emoji) s =
     apfst (map_sum id P_EmojiInterpret) (submitEmoji en emoji s)"
| "service en Req_systemHealthCheck s = apfst (map_sum id P_SystemStatus) (systemHealthCheck en s)"
| "service en (Req_deleteUserRole user_id) s =
     apfst (map_sum id P_RemoveUserRole) (deleteUserRole en user_id s)"
| "service en (Req_fetchExplanation ident) s =
     apfst (map_sum id P_EmojiExplanation) (fetchExplanation en ident s)"
| "service en (Req_addUserRole user_id new_role) s =
     apfst (map_sum id P_ManageUserRole) (addUserRole en user_id new_role s)"
| "service en (Req_deleteUser userId approverId) s =
     apfst (map_sum id P_DeleteUser) (deleteUser userId approverId s)"
| "service en (Req_updateUser userId email role) s =
     apfst (map_sum id P_UpdateUserDetails) (updateUser en userId email role s)"
| "service en (Req_authenticateUser username password) s =
     apfst (map_sum id P_UserAuthentication) (authenticateUser username password s)"
| "service en Req_getApiHealth s = apfst (map_sum id P_HealthCheck) (getApiHealth s)"
| "service en (Req_createUser username password role) s =
     apfst (map_sum id P_CreateUser) (createUser en username password role s)"

fun handler :: "env \<Rightarrow> request \<Rightarrow> world \<Rightarrow> (exn + payload reply) \<times> world" where
  "handler en Req_fetchRecentEmojis s =
     apfst (map_sum id (map_reply P_RecentEmojis)) (api_get_fetchRecentEmojis s)"
| "handler en (Req_fetchEmojiExplanation emoji_id) s =
     apfst (map_sum id (map_reply P_GetEmojiExplanation)) (api_get_fetchEmojiExplanation en emoji_id s)"
| "handler en (Req_getUser userId) s = apfst (map_sum id (map_reply P_UserDetail)) (api_get_getUser en userId s)"
| "handler en (Req_submitEmoji emoji) s =
     apfst (map_sum id (map_reply P_EmojiInterpret)) (api_post_submitEmoji en emoji s)"
| "handler en Req_systemHealthCheck s =
     apfst (map_sum id (map_reply P_SystemStatus)) (api_get_systemHealthCheck en s)"
| "handler en (Req_deleteUserRole user_id) s =
     apfst (map_sum id (map_reply P_RemoveUserRole)) (api_delete_deleteUserRole en user_id s)"
| "handler en (Req_fetchExplanation ident) s =
     apfst (map_sum id (map_reply P_EmojiExplanation)) (api_get_fetchExplanation en ident s)"
| "handler en (Req_addUserRole user_id new_role) s =
     apfst (map_sum id (map_reply P_ManageUserRole)) (api_post_addUserRole en user_id new_role s)"
| "handler en (Req_deleteUser userId approverId) s =
     apfst (map_sum id (map_reply P_DeleteUser)) (api_delete_deleteUser userId approverId s)"
| "handler en (Req_updateUser userId email role) s =
     apfst (map_sum id (map_reply P_UpdateUserDetails)) (api_put_updateUser en userId email role s)"
| "handler en (Req_authenticateUser username password) s =
     apfst (map_sum id (map_reply P_UserAuthentication)) (api_post_authenticateUser username password s)"
| "handler en Req_getApiHealth s = apfst (map_sum id (map_reply P_HealthCheck)) (api_get_getApiHealth s)"
| "handler en (Req_createUser username password role) s =
     apfst (map_sum id (map_reply P_CreateUser)) (api_post_createUser en username password role s)"

subsection \<open>The route table\<close>

text \<open>
  The routes in the order \<^verbatim>\<open>server.py\<close> registers them. A path is the list of its
  segments; a parameter of a pattern takes any segment that is not empty. The router
  gives a request to the first route whose method and pattern match.
\<close>

datatype http_method = GET | POST | PUT | DELETE

datatype segment = Lit string | Param string

datatype endpoint =
    E_fetchRecentEmojis | E_fetchEmojiExplanation | E_getUser | E_submitEmoji
  | E_systemHealthCheck | E_deleteUserRole | E_fetchExplanation | E_addUserRole
  | E_deleteUser | E_updateUser | E_authenticateUser | E_getApiHealth | E_createUser

definition routes :: "(http_method \<times> segment list \<times> endpoint) list" where
  "routes =
     [(GET, [Lit ''emojis'', Lit ''recent''], E_fetchRecentEmojis),
      (GET, [Lit ''emoji'', Lit ''explanation'', Param ''emoji_id''], E_fetchEmojiExplanation),
      (GET, [Lit ''users'', Param ''userId''], E_getUser),
      (POST, [Lit ''emoji'', Lit ''interpret''], E_submitEmoji),
      (GET, [Lit ''system'', Lit ''status''], E_systemHealthCheck),
      (DELETE, [Lit ''admin'', Lit ''user-role'', Param ''user_id''], E_deleteUserRole),
      (GET, [Lit ''emoji'', Lit ''explanation'', Param ''id''], E_fetchExplanation),
      (POST, [Lit ''admin'', Lit ''user-role''], E_addUserRole),
      (DELETE, [Lit ''users'', Param ''userId''], E_deleteUser),
      (PUT, [Lit ''users'', Param ''userId''], E_updateUser),
      (POST, [Lit ''users'', Lit ''authenticate''], E_authenticateUser),
      (GET, [Lit ''health''], E_getApiHealth),
      (POST, [Lit ''users''], E_createUser)]"

fun seg_matches :: "segment \<Rightarrow> string \<Rightarrow> bool" where
  "seg_matches (Lit l) x = (x = l)"
| "seg_matches (Param _) x = (x \<noteq> [])"

fun path_matches :: "segment list \<Rightarrow> string list \<Rightarrow> bool" where
  "path_matches [] [] = True"
| "path_matches (p # ps) (x # xs) = (seg_matches p x \<and> path_matches ps xs)"
| "path_matches _ _ = False"

definition route_matches ::
  "http_method \<Rightarrow> string list \<Rightarrow> http_method \<times> segment list \<times> endpoint \<Rightarrow> bool" where
  "route_matches m path r = (fst r = m \<and> path_matches (fst (snd r)) path)"

definition dispatch :: "http_method \<Rightarrow> string list \<Rightarrow> endpoint option" where
  "dispatch m path = map_option (\<lambda>r. snd (snd r)) (find (route_matches m path) routes)"

text \<open>The pattern of a route without the names of its parameters.\<close>

fun shape :: "segment \<Rightarrow> string option" where
  "shape (Lit l) = Some l"
| "shape (Param _) = None"

definition route_of :: "endpoint \<Rightarrow> (http_method \<times> string option list) option" where
  "route_of e =
     map_option (\<lambda>r. (fst r, map shape (fst (snd r)))) (find (\<lambda>r. snd (snd r) = e) routes)"

subsection \<open>Counting effects\<close>

text \<open>The events a computation adds to the trace of the world it starts in.\<close>

definition added :: "world \<Rightarrow> world \<Rightarrow> event list" where
  "added s s' = drop (length (trace s)) (trace s')"

fun is_db :: "event \<Rightarrow> bool" where
  "is_db (Db _ _) = True"
| "is_db (HttpPost _ _) = False"

definition db_ops :: "event list \<Rightarrow> nat" where
  "db_ops evs = length (filter is_db evs)"

definition http_calls :: "event list \<Rightarrow> nat" where
  "http_calls evs = length (filter (\<lambda>ev. \<not> is_db ev) evs)"

section \<open>Sample data\<close>

text \<open>
  A small store for the concrete instances below: an administrator, a plain user with
  three requests, and one stored explanation; and two environments, one whose
  interpretation API answers, one whose API is down.
\<close>

definition sample_db :: store where
  "sample_db =
     \<lparr>users =
        [\<lparr>usr_id = 1, usr_email = ''alice@example.com'', usr_password = ''$2b$12$saltAhash'',
          usr_role = ADMIN\<rparr>,
         \<lparr>usr_id = 2, usr_email = ''bob@example.com'', usr_password = ''$2b$12$saltBhash'',
          usr_role = USER\<rparr>],
      emojiRequests =
        [\<lparr>req_userId = 2, req_emoji = '':)'', req_explanation = Some ''a smile'',
          req_status = ''EXPLAINED'', req_createdAt = 10\<rparr>,
         \<lparr>req_userId = 2, req_emoji = '':('', req_explanation = None,
          req_status = ''PENDING'', req_createdAt = 20\<rparr>,
         \<lparr>req_userId = 2, req_emoji = '':D'', req_explanation = Some ''a grin'',
          req_status = ''EXPLAINED'', req_createdAt = 30\<rparr>],
      emojiExplanations =
        [\<lparr>expl_id = 1, expl_emoji = '':)'', expl_explanation = ''a smile''\<rparr>]\<rparr>"

definition sample_world :: world where
  "sample_world = \<lparr>db = sample_db, trace = []\<rparr>"

definition empty_world :: world where
  "empty_world = \<lparr>db = \<lparr>users = [], emojiRequests = [], emojiExplanations = []\<rparr>, trace = []\<rparr>"

text \<open>
  \<^verbatim>\<open>int\<close> for the samples: the value of a string of ASCII digits, as Python reads it.
  On any other string it raises here, which is not always what Python does; the samples
  use no other id.
\<close>

definition sample_int :: "string \<Rightarrow> exn + int" where
  "sample_int x =
     (if x \<noteq> [] \<and> length x \<le> 4300 \<and> list_all (\<lambda>c. 48 \<le> (of_char c :: nat) \<and> (of_char c :: nat) \<le> 57) x
      then Inr (int (fold (\<lambda>c n. 10 * n + (of_char c - 48)) x 0))
      else Inl (ValueError (''invalid literal for int() with base 10: '' @ x)))"

definition env_up :: env where
  "env_up =
     \<lparr>post = (\<lambda>url emoji. Inr \<lparr>reply_status = 200, reply_explanation = Some ''a face''\<rparr>),
      status_message = (\<lambda>r. ''Server error''),
      gensalt = ''$2b$12$salt'',
      hashpw = (\<lambda>p salt. salt @ p),
      clock = (\<lambda>k. 1000 + int k),
      isoformat = str_int,
      unique_message = (\<lambda>c. ''Unique constraint failed on '' @ c),
      validation_message = (\<lambda>m f. ''1 validation error for '' @ m @ '': '' @ f),
      key_message = (\<lambda>n. CHR 0x27 # n @ [CHR 0x27]),
      int_of = sample_int\<rparr>"

definition env_down :: env where
  "env_down = env_up\<lparr>post := (\<lambda>url emoji. Inr \<lparr>reply_status = 503, reply_explanation = None\<rparr>)\<rparr>"

section \<open>Properties\<close>

lemma db_log [simp]: "db (log ev s) = db s"
  by (simp add: log_def)

lemma trace_log [simp]: "trace (log ev s) = trace s @ [ev]"
  by (simp add: log_def)

lemmas api_defs =
  api_get_fetchRecentEmojis_def api_get_fetchEmojiExplanation_def api_get_getUser_def
  api_post_submitEmoji_def api_get_systemHealthCheck_def api_delete_deleteUserRole_def
  api_get_fetchExplanation_def api_post_addUserRole_def api_delete_deleteUser_def
  api_put_updateUser_def api_post_authenticateUser_def api_get_getApiHealth_def
  api_post_createUser_def

text \<open>The response of the except clause is never built: its content is a dictionary.\<close>

lemma error_response_raises: "error_response e = Inl (AttributeError dict_encode_message)"
  by (simp add: error_response_def Response_init_def render_def jsonable_encoder_def)

lemma except_clause_raises: "except_clause e s = (Inl (AttributeError dict_encode_message), s)"
  by (simp add: except_clause_def error_response_raises)

text \<open>A handler in terms of the outcome of its service, whatever the service is.\<close>

lemma handler_outcome:
  "handler en req s =
     (case service en req s of
        (Inl e, s') \<Rightarrow> (Inl (AttributeError dict_encode_message), s')
      | (Inr p, s') \<Rightarrow> (Inr (Typed p), s'))"
  by (cases req) (auto simp: api_defs except_clause_raises split: prod.splits sum.splits)

lemma snd_handler: "snd (handler en req s) = snd (service en req s)"
  by (simp add: handler_outcome split: prod.splits sum.splits)

lemma fetchRecentEmojis_none:
  "filter (\<lambda>r. req_status r = ''EXPLAINED'') (emojiRequests (db s)) = [] \<Longrightarrow>
   fetchRecentEmojis s = (Inl (HTTPException 404 ''No recent emojis found.''), log (Db TEmojiRequest FindMany) s)"
  by (simp add: fetchRecentEmojis_def EmojiRequest_find_many_status_def)

text \<open>What each service leaves in the world: the tables and the events it adds.\<close>

lemma fetchRecentEmojis_world:
  "snd (fetchRecentEmojis s) = log (Db TEmojiRequest FindMany) s"
  by (simp add: fetchRecentEmojis_def EmojiRequest_find_many_status_def)

lemma fetchEmojiExplanation_world:
  "snd (fetchEmojiExplanation en i s) =
     (case int_of en i of Inl _ \<Rightarrow> s | Inr _ \<Rightarrow> log (Db TEmojiExplanation FindUnique) s)"
  by (simp add: fetchEmojiExplanation_def EmojiExplanation_find_unique_id_def
      split: sum.splits option.splits)

lemma fetchExplanation_world:
  "snd (fetchExplanation en i s) =
     (case int_of en i of Inl _ \<Rightarrow> s | Inr _ \<Rightarrow> log (Db TEmojiExplanation FindUnique) s)"
  by (simp add: fetchExplanation_def EmojiExplanation_find_unique_id_def
      split: sum.splits option.splits)

lemma getUser_world: "snd (getUser en i s) = log (Db TUser FindUnique) s"
  by (simp add: getUser_def User_find_unique_id_include_requests_def Let_def
      split: option.splits prod.splits)

lemma systemHealthCheck_world: "snd (systemHealthCheck en s) = s"
  by (simp add: systemHealthCheck_def Let_def)

lemma getApiHealth_world: "snd (getApiHealth s) = log (Db TEmojiRequest Count) s"
  by (simp add: getApiHealth_def EmojiRequest_count_def)

lemma authenticateUser_world: "snd (authenticateUser u p s) = log (Db TUser FindUnique) s"
  by (simp add: authenticateUser_def User_find_unique_email_def Let_def)

lemma User_update_trace:
  "trace (snd (User_update en i email role s)) = trace s @ [Db TUser Update]"
  by (simp add: User_update_def Let_def split: option.splits)

lemma User_update_ids:
  "map usr_id (users (db (snd (User_update en i email role s)))) = map usr_id (users (db s))"
  by (simp add: User_update_def Let_def split: option.splits)

lemma User_update_absent:
  "find (\<lambda>u. usr_id u = i) (users (db s)) = None \<Longrightarrow>
   User_update en i email role s = (Inr None, log (Db TUser Update) s)"
  by (simp add: User_update_def Let_def)

lemma addUserRole_trace:
  "trace (snd (addUserRole en i r s)) =
     trace s @ (if find (\<lambda>u. usr_id u = i) (users (db s)) = None then [Db TUser FindUnique]
                else [Db TUser FindUnique, Db TUser Update])"
  using User_update_trace[of en i None "Some r" "log (Db TUser FindUnique) s"]
  by (auto simp: addUserRole_def User_find_unique_id_def split: prod.splits sum.splits)

lemma addUserRole_ids:
  "map usr_id (users (db (snd (addUserRole en i r s)))) = map usr_id (users (db s))"
  using User_update_ids[of en i None "Some r" "log (Db TUser FindUnique) s"]
  by (auto simp: addUserRole_def User_find_unique_id_def split: prod.splits sum.splits)

lemma deleteUserRole_trace:
  "trace (snd (deleteUserRole en i s)) =
     trace s @ (if find (\<lambda>u. usr_id u = i) (users (db s)) = None then [Db TUser FindUnique]
                else [Db TUser FindUnique, Db TUser Update])"
  using User_update_trace[of en i None "Some USER" "log (Db TUser FindUnique) s"]
  by (auto simp: deleteUserRole_def User_find_unique_id_def split: prod.splits sum.splits)

lemma deleteUserRole_ids:
  "map usr_id (users (db (snd (deleteUserRole en i s)))) = map usr_id (users (db s))"
  using User_update_ids[of en i None "Some USER" "log (Db TUser FindUnique) s"]
  by (auto simp: deleteUserRole_def User_find_unique_id_def split: prod.splits sum.splits)

lemma updateUser_trace:
  "trace (snd (updateUser en i email role s)) =
     trace s @ (if email \<noteq> None \<or> role \<noteq> None then [Db TUser Update] else [Db TUser FindUnique])"
  using User_update_trace[of en i email role s]
  by (auto simp: updateUser_def User_find_unique_id_def split: prod.splits sum.splits)

lemma updateUser_ids:
  "map usr_id (users (db (snd (updateUser en i email role s)))) = map usr_id (users (db s))"
  using User_update_ids[of en i email role s]
  by (auto simp: updateUser_def User_find_unique_id_def split: prod.splits sum.splits)

lemma createUser_trace:
  "trace (snd (createUser en n p r s)) = trace s @ [Db TUser Create]"
  by (simp add: createUser_def User_create_def Role_getitem_def Let_def
      split: prod.splits sum.splits)

lemma deleteUser_trace:
  "trace (snd (deleteUser userId approverId s)) =
     trace s @
     (case find (\<lambda>u. usr_id u = approverId) (users (db s)) of
        None \<Rightarrow> [Db TUser FindUnique]
      | Some a \<Rightarrow>
          if usr_role a \<noteq> ADMIN then [Db TUser FindUnique]
          else (case find (\<lambda>u. usr_id u = userId) (users (db s)) of
                  None \<Rightarrow> [Db TUser FindUnique, Db TUser FindUnique]
                | Some u \<Rightarrow>
                    if usr_role u = ADMIN then [Db TUser FindUnique, Db TUser FindUnique]
                    else [Db TUser FindUnique, Db TUser FindUnique,
                          Db TEmojiRequest DeleteMany, Db TUser Delete]))"
  by (simp add: deleteUser_def User_find_unique_id_def User_delete_def
      EmojiRequest_delete_many_userId_def Let_def split: option.splits)

lemma call_world:
  "snd (call_emoji_interpretation_service en emoji s) = log (HttpPost interpret_url emoji) s"
  by (simp add: call_emoji_interpretation_service_def Let_def split: sum.splits)

lemma submitEmoji_trace:
  "trace (snd (submitEmoji en emoji s)) =
     trace s @ HttpPost interpret_url emoji #
       (case fst (call_emoji_interpretation_service en emoji s) of
          Inl _ \<Rightarrow> []
        | Inr _ \<Rightarrow>
            if find (\<lambda>r. expl_emoji r = emoji) (emojiExplanations (db s)) = None
            then [Db TEmojiExplanation FindUnique, Db TEmojiExplanation Create]
            else [Db TEmojiExplanation FindUnique])"
proof (cases "call_emoji_interpretation_service en emoji s")
  case (Pair r s1)
  have s1: "s1 = log (HttpPost interpret_url emoji) s"
    using call_world[of en emoji s] Pair by simp
  show ?thesis
    by (cases r)
      (simp_all add: submitEmoji_def Pair s1 EmojiExplanation_find_unique_emoji_def
        EmojiExplanation_create_def Let_def)
qed

lemma submitEmoji_users: "users (db (snd (submitEmoji en emoji s))) = users (db s)"
proof (cases "call_emoji_interpretation_service en emoji s")
  case (Pair r s1)
  have s1: "s1 = log (HttpPost interpret_url emoji) s"
    using call_world[of en emoji s] Pair by simp
  show ?thesis
    by (cases r)
      (simp_all add: submitEmoji_def Pair s1 EmojiExplanation_find_unique_emoji_def
        EmojiExplanation_create_def Let_def)
qed

lemma deleteUser_admin_target:
  assumes "find (\<lambda>u. usr_id u = userId) (users (db s)) = Some u" and "usr_role u = ADMIN"
  shows "fst (deleteUser userId approverId s) =
           Inr \<lparr>dur_status = ''error'',
                dur_message =
                  (if \<exists>a. find (\<lambda>u. usr_id u = approverId) (users (db s)) = Some a
                          \<and> usr_role a = ADMIN
                   then ''Cannot delete an admin user.''
                   else ''Approver is not authorized or does not exist.'')\<rparr>
         \<and> db (snd (deleteUser userId approverId s)) = db s"
  using assms by (auto simp: deleteUser_def User_find_unique_id_def split: option.splits)

lemma find_distinct_id:
  "distinct (map usr_id xs) \<Longrightarrow> find (\<lambda>u. usr_id u = i) xs = Some v \<Longrightarrow> u \<in> set xs \<Longrightarrow>
   usr_id u = i \<Longrightarrow> u = v"
  by (induction xs) (auto split: if_splits)

lemma fold_max_ge: "(a::int) \<le> fold max xs a"
proof (induction xs arbitrary: a)
  case Nil
  show ?case by simp
next
  case (Cons y ys)
  have "a \<le> max y a" by simp
  also have "\<dots> \<le> fold max ys (max y a)" by (rule Cons.IH)
  finally show ?case by simp
qed

lemma fold_max_mem: "x \<in> set xs \<Longrightarrow> (x::int) \<le> fold max xs a"
proof (induction xs arbitrary: a)
  case Nil
  then show ?case by simp
next
  case (Cons y ys)
  show ?case
  proof (cases "x = y")
    case True
    have "y \<le> max y a" by simp
    also have "\<dots> \<le> fold max ys (max y a)" by (rule fold_max_ge)
    finally show ?thesis using True by simp
  next
    case False
    with Cons show ?thesis by simp
  qed
qed

lemma next_id_fresh: "x \<in> set ids \<Longrightarrow> x < next_id ids"
  using fold_max_mem[of x ids 0] by (simp add: next_id_def)

lemma createUser_users:
  "users (db (snd (createUser en n p r s))) = users (db s)
   \<or> (\<exists>u. users (db (snd (createUser en n p r s))) = users (db s) @ [u]
          \<and> usr_id u \<notin> usr_id ` set (users (db s)))"
proof -
  have "next_id (map usr_id (users (db s))) \<notin> usr_id ` set (users (db s))"
    using next_id_fresh[of _ "map usr_id (users (db s))"] by force
  then show ?thesis
    by (simp add: createUser_def User_create_def Role_getitem_def Let_def)
qed

lemma deleteUser_users:
  "users (db (snd (deleteUser userId approverId s))) = users (db s)
   \<or> (\<exists>v. find (\<lambda>u. usr_id u = userId) (users (db s)) = Some v \<and> usr_role v \<noteq> ADMIN
          \<and> users (db (snd (deleteUser userId approverId s)))
              = filter (\<lambda>u. usr_id u \<noteq> userId) (users (db s)))"
  by (auto simp: deleteUser_def User_find_unique_id_def User_delete_def
      EmojiRequest_delete_many_userId_def Let_def split: option.splits)

text \<open>The ids of the users after a request, for every request but a deletion or a creation.\<close>

lemma service_ids:
  "(\<forall>a b. req \<noteq> Req_deleteUser a b) \<Longrightarrow> (\<forall>a b c. req \<noteq> Req_createUser a b c) \<Longrightarrow>
   map usr_id (users (db (snd (service en req s)))) = map usr_id (users (db s))"
proof (cases req)
  case (Req_fetchEmojiExplanation i)
  then show ?thesis by (simp add: fetchEmojiExplanation_world split: sum.splits)
next
  case (Req_fetchExplanation i)
  then show ?thesis by (simp add: fetchExplanation_world split: sum.splits)
qed (simp_all add: fetchRecentEmojis_world getUser_world systemHealthCheck_world
      getApiHealth_world authenticateUser_world submitEmoji_users addUserRole_ids
      deleteUserRole_ids updateUser_ids)

lemma admin_kept:
  assumes d: "distinct (map usr_id (users (db s)))"
      and u: "u \<in> set (users (db s))" and a: "usr_role u = ADMIN"
  shows "usr_id u \<in> usr_id ` set (users (db (snd (handler en req s))))"
proof -
  let ?s' = "snd (service en req s)"
  have "usr_id u \<in> set (map usr_id (users (db ?s')))"
  proof (cases "\<exists>i j. req = Req_deleteUser i j")
    case True
    then obtain i j where r: "req = Req_deleteUser i j" by blast
    from deleteUser_users[of i j s] show ?thesis
    proof
      assume "users (db (snd (deleteUser i j s))) = users (db s)"
      then show ?thesis using u r by simp
    next
      assume "\<exists>v. find (\<lambda>u. usr_id u = i) (users (db s)) = Some v \<and> usr_role v \<noteq> ADMIN
          \<and> users (db (snd (deleteUser i j s))) = filter (\<lambda>u. usr_id u \<noteq> i) (users (db s))"
      then obtain v where v: "find (\<lambda>u. usr_id u = i) (users (db s)) = Some v"
        "usr_role v \<noteq> ADMIN"
        "users (db (snd (deleteUser i j s))) = filter (\<lambda>u. usr_id u \<noteq> i) (users (db s))"
        by blast
      have "usr_id u \<noteq> i" using find_distinct_id[OF d v(1) u] v(2) a by auto
      then show ?thesis using v(3) u r by auto
    qed
  next
    case nd: False
    show ?thesis
    proof (cases "\<exists>n p r. req = Req_createUser n p r")
      case True
      then obtain n p r where r: "req = Req_createUser n p r" by blast
      show ?thesis using createUser_users[of en n p r s] u r by auto
    next
      case False
      with nd have "map usr_id (users (db ?s')) = map usr_id (users (db s))"
        by (intro service_ids) auto
      then show ?thesis using u by simp
    qed
  qed
  then show ?thesis by (simp add: snd_handler)
qed

lemma ids_stay_distinct:
  assumes d: "distinct (map usr_id (users (db s)))"
  shows "distinct (map usr_id (users (db (snd (handler en req s)))))"
proof -
  let ?s' = "snd (service en req s)"
  have "distinct (map usr_id (users (db ?s')))"
  proof (cases "\<exists>i j. req = Req_deleteUser i j")
    case True
    then obtain i j where r: "req = Req_deleteUser i j" by blast
    show ?thesis using deleteUser_users[of i j s] d r
      by (auto simp: distinct_map_filter)
  next
    case nd: False
    show ?thesis
    proof (cases "\<exists>n p r. req = Req_createUser n p r")
      case True
      then obtain n p r where r: "req = Req_createUser n p r" by blast
      show ?thesis using createUser_users[of en n p r s] d r by auto
    next
      case False
      with nd have "map usr_id (users (db ?s')) = map usr_id (users (db s))"
        by (intro service_ids) auto
      then show ?thesis using d by simp
    qed
  qed
  then show ?thesis by (simp add: snd_handler)
qed

lemmas sample_defs = sample_world_def sample_db_def empty_world_def env_up_def env_down_def

lemma added_append: "trace s' = trace s @ evs \<Longrightarrow> added s s' = evs"
  by (simp add: added_def)

text \<open>The events of one request, by handler.\<close>

lemma service_counts:
  "(case req of
      Req_submitEmoji e \<Rightarrow>
        http_calls (added s (snd (service en req s))) = 1
        \<and> db_ops (added s (snd (service en req s))) \<le> 2
    | Req_deleteUser i j \<Rightarrow>
        http_calls (added s (snd (service en req s))) = 0
        \<and> db_ops (added s (snd (service en req s))) \<le> 4
    | _ \<Rightarrow>
        http_calls (added s (snd (service en req s))) = 0
        \<and> db_ops (added s (snd (service en req s))) \<le> 2)"
proof (cases req)
  case (Req_fetchEmojiExplanation i)
  then show ?thesis
    by (simp add: fetchEmojiExplanation_world added_def db_ops_def http_calls_def split: sum.splits)
next
  case (Req_fetchExplanation i)
  then show ?thesis
    by (simp add: fetchExplanation_world added_def db_ops_def http_calls_def split: sum.splits)
next
  case (Req_submitEmoji e)
  then show ?thesis
    by (simp add: added_append[OF submitEmoji_trace] db_ops_def http_calls_def split: sum.splits)
next
  case (Req_deleteUser i j)
  then show ?thesis
    by (simp add: added_append[OF deleteUser_trace] db_ops_def http_calls_def split: option.splits)
next
  case (Req_addUserRole i r)
  then show ?thesis
    by (simp add: added_append[OF addUserRole_trace] db_ops_def http_calls_def)
next
  case (Req_deleteUserRole i)
  then show ?thesis
    by (simp add: added_append[OF deleteUserRole_trace] db_ops_def http_calls_def)
next
  case (Req_updateUser i e r)
  then show ?thesis
    by (simp add: added_append[OF updateUser_trace] db_ops_def http_calls_def)
next
  case (Req_createUser n p r)
  then show ?thesis
    by (simp add: added_append[OF createUser_trace] db_ops_def http_calls_def)
qed (simp_all add: fetchRecentEmojis_world getUser_world systemHealthCheck_world
      getApiHealth_world authenticateUser_world added_def db_ops_def http_calls_def)

lemma submitEmoji_success_db_ops:
  "fst (submitEmoji en emoji s) = Inr r \<Longrightarrow>
   1 \<le> db_ops (added s (snd (submitEmoji en emoji s)))"
proof -
  assume a: "fst (submitEmoji en emoji s) = Inr r"
  have "\<exists>x. fst (call_emoji_interpretation_service en emoji s) = Inr x"
    using a by (cases "call_emoji_interpretation_service en emoji s")
      (auto simp: submitEmoji_def split: sum.splits)
  then show ?thesis
    by (auto simp: added_append[OF submitEmoji_trace] db_ops_def)
qed

text \<open>
  C1: what a handler does when its service raises. The except clause of every handler
  builds its Response from the dictionary {"error": str(e)}, which the constructor cannot
  encode. So no handler returns the response with status 500 and that body: the handler
  raises an AttributeError, with the world the service left, and the server answers this
  with its own status 500. It is so for each of the thirteen handlers, and for the
  HTTPException with status 404 that fetchRecentEmojis raises when no request row is
  explained.
\<close>

theorem C1_except_clause_raises:
  "error_response e = Inl (AttributeError dict_encode_message)
   \<and> handler en req s =
       (case service en req s of
          (Inl e, s') \<Rightarrow> (Inl (AttributeError dict_encode_message), s')
        | (Inr p, s') \<Rightarrow> (Inr (Typed p), s'))
   \<and> (service en req s = (Inl e, s') \<longrightarrow>
         handler en req s = (Inl (AttributeError dict_encode_message), s'))
   \<and> (\<forall>r. fst (handler en req s) \<noteq> Inr (Raw r))
   \<and> status_of_raise (AttributeError dict_encode_message) = 500
   \<and> (filter (\<lambda>r. req_status r = ''EXPLAINED'') (emojiRequests (db s)) = [] \<longrightarrow>
        fst (fetchRecentEmojis s) = Inl (HTTPException 404 ''No recent emojis found.'')
        \<and> fst (api_get_fetchRecentEmojis s) = Inl (AttributeError dict_encode_message))"
proof -
  have 1: "\<forall>r. fst (handler en req s) \<noteq> Inr (Raw r)"
    by (simp add: handler_outcome split: prod.splits sum.splits)
  have 2: "service en req s = (Inl e, s') \<longrightarrow>
         handler en req s = (Inl (AttributeError dict_encode_message), s')"
    by (simp add: handler_outcome)
  have 3: "filter (\<lambda>r. req_status r = ''EXPLAINED'') (emojiRequests (db s)) = [] \<longrightarrow>
        fst (fetchRecentEmojis s) = Inl (HTTPException 404 ''No recent emojis found.'')
        \<and> fst (api_get_fetchRecentEmojis s) = Inl (AttributeError dict_encode_message)"
    by (simp add: fetchRecentEmojis_none api_get_fetchRecentEmojis_def except_clause_raises)
  show ?thesis
    using 1 2 3 by (simp add: error_response_raises handler_outcome)
qed

theorem C1_except_clause_raises_witness:
  "service env_up Req_fetchRecentEmojis empty_world =
     (Inl (HTTPException 404 ''No recent emojis found.''),
      \<lparr>db = \<lparr>users = [], emojiRequests = [], emojiExplanations = []\<rparr>,
       trace = [Db TEmojiRequest FindMany]\<rparr>)
   \<and> handler env_up Req_fetchRecentEmojis empty_world =
       (Inl (AttributeError dict_encode_message),
        \<lparr>db = \<lparr>users = [], emojiRequests = [], emojiExplanations = []\<rparr>,
         trace = [Db TEmojiRequest FindMany]\<rparr>)
   \<and> str_exn (AttributeError dict_encode_message) =
       [CHR 0x27] @ ''dict'' @ [CHR 0x27] @ '' object has no attribute '' @ [CHR 0x27]
         @ ''encode'' @ [CHR 0x27]"
proof -
  have s: "service env_up Req_fetchRecentEmojis empty_world =
     (Inl (HTTPException 404 ''No recent emojis found.''),
      \<lparr>db = \<lparr>users = [], emojiRequests = [], emojiExplanations = []\<rparr>,
       trace = [Db TEmojiRequest FindMany]\<rparr>)"
    by (simp add: fetchRecentEmojis_def EmojiRequest_find_many_status_def empty_world_def
        log_def)
  from C1_except_clause_raises [of "HTTPException 404 ''No recent emojis found.''" env_up
      Req_fetchRecentEmojis empty_world
      "\<lparr>db = \<lparr>users = [], emojiRequests = [], emojiExplanations = []\<rparr>,
        trace = [Db TEmojiRequest FindMany]\<rparr>"] s
  show ?thesis by (simp add: dict_encode_message_def)
qed

text \<open>
  C2, as the code has it: when the target of deleteUser exists and is an administrator,
  the answer has status "error" and the tables are what they were; the message is "Cannot
  delete an admin user." when the approver is an administrator, and "Approver is not
  authorized or does not exist." otherwise. No request removes a row of an administrator:
  in a store whose user ids are distinct, every administrator is still there after any
  request, and the ids are still distinct.
\<close>

theorem C2_admin_never_deleted:
  "(find (\<lambda>u. usr_id u = userId) (users (db s)) = Some u \<and> usr_role u = ADMIN \<longrightarrow>
      fst (deleteUser userId approverId s) =
        Inr \<lparr>dur_status = ''error'',
             dur_message =
               (if \<exists>a. find (\<lambda>u. usr_id u = approverId) (users (db s)) = Some a
                       \<and> usr_role a = ADMIN
                then ''Cannot delete an admin user.''
                else ''Approver is not authorized or does not exist.'')\<rparr>
      \<and> db (snd (deleteUser userId approverId s)) = db s)
   \<and> (distinct (map usr_id (users (db s))) \<longrightarrow>
        distinct (map usr_id (users (db (snd (handler en req s)))))
        \<and> (\<forall>a \<in> set (users (db s)). usr_role a = ADMIN \<longrightarrow>
              usr_id a \<in> usr_id ` set (users (db (snd (handler en req s))))))"
  using deleteUser_admin_target[of userId s u approverId] admin_kept[of s _ en req]
    ids_stay_distinct[of s en req]
  by blast

theorem C2_admin_never_deleted_witness:
  "fst (deleteUser 1 1 sample_world) =
     Inr \<lparr>dur_status = ''error'', dur_message = ''Cannot delete an admin user.''\<rparr>
   \<and> db (snd (deleteUser 1 1 sample_world)) = sample_db
   \<and> map usr_id (users (db (snd (handler env_up (Req_deleteUser 2 1) sample_world)))) = [1]"
  using C2_admin_never_deleted [of 1 sample_world
      "\<lparr>usr_id = 1, usr_email = ''alice@example.com'', usr_password = ''$2b$12$saltAhash'',
        usr_role = ADMIN\<rparr>" 1 env_up "Req_deleteUser 2 1"]
  by (simp add: sample_defs api_delete_deleteUser_def deleteUser_def User_find_unique_id_def
      User_delete_def EmojiRequest_delete_many_userId_def Let_def)

theorem C2_counterexample:
  "map (\<lambda>u. (usr_id u, usr_role u)) (users (db sample_world)) = [(1, ADMIN), (2, USER)]
   \<and> fst (deleteUser 1 2 sample_world) =
       Inr \<lparr>dur_status = ''error'',
            dur_message = ''Approver is not authorized or does not exist.''\<rparr>
   \<and> fst (deleteUser 1 2 sample_world) \<noteq>
       Inr \<lparr>dur_status = ''error'', dur_message = ''Cannot delete an admin user.''\<rparr>"
  by (simp add: sample_defs deleteUser_def User_find_unique_id_def)

text \<open>
  C3: whenever the approver does not exist or is not an administrator, deleteUser answers
  with status "error" and the message "Approver is not authorized or does not exist.",
  and the tables of the data store are what they were.
\<close>

theorem C3_deleteUser_unauthorized_approver:
  assumes "find (\<lambda>u. usr_id u = approverId) (users (db s)) = None
           \<or> (\<exists>a. find (\<lambda>u. usr_id u = approverId) (users (db s)) = Some a \<and> usr_role a \<noteq> ADMIN)"
  shows "fst (deleteUser userId approverId s) =
           Inr \<lparr>dur_status = ''error'',
                dur_message = ''Approver is not authorized or does not exist.''\<rparr>
         \<and> db (snd (deleteUser userId approverId s)) = db s
         \<and> added s (snd (deleteUser userId approverId s)) = [Db TUser FindUnique]"
  using assms by (auto simp: deleteUser_def User_find_unique_id_def added_def)

theorem C3_deleteUser_unauthorized_approver_witness:
  "fst (deleteUser 1 2 sample_world) =
     Inr \<lparr>dur_status = ''error'',
          dur_message = ''Approver is not authorized or does not exist.''\<rparr>
   \<and> db (snd (deleteUser 1 2 sample_world)) = sample_db
   \<and> added sample_world (snd (deleteUser 1 2 sample_world)) = [Db TUser FindUnique]"
  using C3_deleteUser_unauthorized_approver [of 2 sample_world 1]
  by (simp add: sample_defs)

text \<open>
  C6, as the code has it: a request makes at most one outbound HTTP call and at most four
  calls of the data-store client. Only deleteUser makes more than three (four, when it
  deletes); only submitEmoji calls the interpretation API, once, and when it returns a
  result it has called the data-store client as well, once or twice.
\<close>

theorem C6_effects_per_request:
  "http_calls (added s (snd (handler en req s))) \<le> 1
   \<and> db_ops (added s (snd (handler en req s))) \<le> 4
   \<and> ((\<forall>i j. req \<noteq> Req_deleteUser i j) \<longrightarrow> db_ops (added s (snd (handler en req s))) \<le> 3)
   \<and> ((\<forall>e. req \<noteq> Req_submitEmoji e) \<longrightarrow> http_calls (added s (snd (handler en req s))) = 0)
   \<and> (\<forall>e. req = Req_submitEmoji e \<longrightarrow>
         http_calls (added s (snd (handler en req s))) = 1
         \<and> db_ops (added s (snd (handler en req s))) \<le> 2
         \<and> (\<forall>r. fst (submitEmoji en e s) = Inr r \<longrightarrow>
               1 \<le> db_ops (added s (snd (handler en req s)))))"
  using service_counts[where req=req and s=s and en=en] submitEmoji_success_db_ops[of en _ s]
  unfolding snd_handler
  by (cases req) auto

theorem C6_effects_per_request_witness:
  "http_calls (added sample_world (snd (handler env_up (Req_submitEmoji '':)'') sample_world))) = 1
   \<and> db_ops (added sample_world (snd (handler env_up (Req_submitEmoji '':)'') sample_world))) = 1"
  using C6_effects_per_request [of sample_world env_up "Req_submitEmoji '':)''"]
  unfolding snd_handler
  by (simp add: added_append[OF submitEmoji_trace] db_ops_def http_calls_def
      call_emoji_interpretation_service_def raise_for_status_def Let_def sample_defs)

theorem C6_counterexample:
  "db_ops (added sample_world (snd (handler env_up (Req_deleteUser 2 1) sample_world))) = 4
   \<and> http_calls (added sample_world (snd (handler env_up (Req_submitEmoji '':D'') sample_world))) = 1
   \<and> db_ops (added sample_world (snd (handler env_up (Req_submitEmoji '':D'') sample_world))) = 2"
  unfolding snd_handler
  by (simp add: added_append[OF submitEmoji_trace] added_append[OF deleteUser_trace]
      db_ops_def http_calls_def call_emoji_interpretation_service_def raise_for_status_def
      Let_def sample_defs)

lemma api_post_submitEmoji_eq:
  "api_post_submitEmoji en emoji s =
     (case fst (submitEmoji en emoji s) of
        Inl e \<Rightarrow> Inl (AttributeError dict_encode_message) | Inr res \<Rightarrow> Inr (Typed res),
      snd (submitEmoji en emoji s))"
  by (simp add: api_post_submitEmoji_def except_clause_raises split: prod.splits sum.splits)

lemma find_append_new: "find P xs = None \<Longrightarrow> P u \<Longrightarrow> find P (xs @ [u]) = Some u"
  by (induction xs) (auto split: if_splits)

lemma createUser_stores:
  assumes "find (\<lambda>u. usr_email u = username) (users (db s)) = None"
  shows "createUser en username password role s =
           (Inl (KeyError (key_message en (Role_name role))),
            (log (Db TUser Create) s)\<lparr>db := (db s)\<lparr>users := users (db s) @
               [\<lparr>usr_id = next_id (map usr_id (users (db s))), usr_email = username,
                 usr_password = hashpw en password (gensalt en), usr_role = role\<rparr>]\<rparr>\<rparr>)"
  using assms by (simp add: createUser_def User_create_def Role_getitem_def Let_def)

lemma createUser_refused:
  assumes "find (\<lambda>u. usr_email u = username) (users (db s)) \<noteq> None"
  shows "createUser en username password role s =
           (Inl (UniqueViolationError (unique_message en ''email'')), log (Db TUser Create) s)"
  using assms by (auto simp: createUser_def User_create_def Let_def)

text \<open>
  C4: a user created by createUser cannot authenticate with the password given at
  creation. When the email is free, createUser stores a row whose password column holds
  the bcrypt hash (and then raises the KeyError of its role lookup, the row staying
  stored); authenticateUser compares the submitted password with that column by
  equality, so whenever the hash differs from the plain password it answers with an
  empty jwt and the error "Invalid username or password". When the email is taken,
  createUser creates no user.
\<close>

theorem C4_created_user_cannot_authenticate:
  "(find (\<lambda>u. usr_email u = username) (users (db s)) = None
      \<and> hashpw en password (gensalt en) \<noteq> password \<longrightarrow>
      users (db (snd (createUser en username password role s))) =
        users (db s) @
          [\<lparr>usr_id = next_id (map usr_id (users (db s))), usr_email = username,
            usr_password = hashpw en password (gensalt en), usr_role = role\<rparr>]
      \<and> find (\<lambda>u. usr_email u = username)
            (users (db (snd (createUser en username password role s)))) =
          Some \<lparr>usr_id = next_id (map usr_id (users (db s))), usr_email = username,
                usr_password = hashpw en password (gensalt en), usr_role = role\<rparr>
      \<and> fst (authenticateUser username password
               (snd (createUser en username password role s))) =
          Inr \<lparr>jwt = [], error = Some ''Invalid username or password''\<rparr>
      \<and> fst (createUser en username password role s) =
          Inl (KeyError (key_message en (Role_name role))))
   \<and> (find (\<lambda>u. usr_email u = username) (users (db s)) \<noteq> None \<longrightarrow>
        db (snd (createUser en username password role s)) = db s
        \<and> fst (createUser en username password role s) =
            Inl (UniqueViolationError (unique_message en ''email'')))"
proof (intro conjI impI)
  assume a: "find (\<lambda>u. usr_email u = username) (users (db s)) = None
      \<and> hashpw en password (gensalt en) \<noteq> password"
  let ?u = "\<lparr>usr_id = next_id (map usr_id (users (db s))), usr_email = username,
             usr_password = hashpw en password (gensalt en), usr_role = role\<rparr>"
  let ?s' = "snd (createUser en username password role s)"
  from a have c: "createUser en username password role s =
           (Inl (KeyError (key_message en (Role_name role))),
            (log (Db TUser Create) s)\<lparr>db := (db s)\<lparr>users := users (db s) @ [?u]\<rparr>\<rparr>)"
    using createUser_stores[of username s en password role] by simp
  show u: "users (db ?s') = users (db s) @ [?u]" by (simp add: c)
  show f: "find (\<lambda>u. usr_email u = username) (users (db ?s')) = Some ?u"
    using a by (simp add: u find_append_new)
  show "fst (authenticateUser username password ?s') =
          Inr \<lparr>jwt = [], error = Some ''Invalid username or password''\<rparr>"
    using a f by (simp add: authenticateUser_def User_find_unique_email_def)
  show "fst (createUser en username password role s) =
          Inl (KeyError (key_message en (Role_name role)))"
    by (simp add: c)
next
  assume a: "find (\<lambda>u. usr_email u = username) (users (db s)) \<noteq> None"
  note r = createUser_refused[OF a, of en password role]
  show "db (snd (createUser en username password role s)) = db s" by (simp add: r)
  show "fst (createUser en username password role s) =
            Inl (UniqueViolationError (unique_message en ''email''))" by (simp add: r)
qed

theorem C4_created_user_cannot_authenticate_witness:
  "fst (createUser env_up ''carol@example.com'' ''secret'' USER sample_world) =
     Inl (KeyError [CHR 0x27, CHR ''U'', CHR ''S'', CHR ''E'', CHR ''R'', CHR 0x27])
   \<and> users (db (snd (createUser env_up ''carol@example.com'' ''secret'' USER sample_world))) =
       users sample_db @
         [\<lparr>usr_id = 3, usr_email = ''carol@example.com'',
           usr_password = ''$2b$12$saltsecret'', usr_role = USER\<rparr>]
   \<and> fst (authenticateUser ''carol@example.com'' ''secret''
            (snd (createUser env_up ''carol@example.com'' ''secret'' USER sample_world))) =
       Inr \<lparr>jwt = [], error = Some ''Invalid username or password''\<rparr>"
proof -
  have f: "find (\<lambda>u. usr_email u = ''carol@example.com'') (users (db sample_world)) = None"
    by (simp add: sample_defs)
  have h: "hashpw env_up ''secret'' (gensalt env_up) = ''$2b$12$saltsecret''"
    by (simp add: env_up_def)
  have n: "next_id (map usr_id (users (db sample_world))) = 3"
    by (simp add: sample_defs next_id_def)
  have k: "key_message env_up ''USER'' =
             [CHR 0x27, CHR ''U'', CHR ''S'', CHR ''E'', CHR ''R'', CHR 0x27]"
    by (simp add: env_up_def)
  from C4_created_user_cannot_authenticate [of "''carol@example.com''" sample_world env_up
      "''secret''" USER] f
  show ?thesis by (simp add: h n k) (simp add: sample_world_def)
qed

text \<open>
  C5: what the three handlers that change a user do when no user has the given id.
  addUserRole and deleteUserRole look the user up first and return a payload with
  success False. updateUser has no such check: with updates it calls the update at once,
  without updates it looks the user up, and either way it passes the missing user to its
  response model, which raises a validation error. No table changes.
\<close>

theorem C5_absent_user:
  assumes "find (\<lambda>u. usr_id u = i) (users (db s)) = None"
  shows "fst (addUserRole en i new_role s) =
           Inr \<lparr>murr_success = False,
                murr_message = ''No user found with ID '' @ str_int i @ ''.''\<rparr>
         \<and> added s (snd (addUserRole en i new_role s)) = [Db TUser FindUnique]
         \<and> fst (deleteUserRole en i s) =
             Inr \<lparr>rurr_success = False, rurr_message = ''User not found.''\<rparr>
         \<and> added s (snd (deleteUserRole en i s)) = [Db TUser FindUnique]
         \<and> fst (updateUser en i email role s) =
             Inl (ValidationError (validation_message en ''UpdateUserDetailsResponse''
                    ''updated_user''))
         \<and> added s (snd (updateUser en i email role s)) =
             (if email \<noteq> None \<or> role \<noteq> None then [Db TUser Update] else [Db TUser FindUnique])
         \<and> db (snd (addUserRole en i new_role s)) = db s
         \<and> db (snd (deleteUserRole en i s)) = db s
         \<and> db (snd (updateUser en i email role s)) = db s"
  using assms
  by (auto simp: addUserRole_def deleteUserRole_def updateUser_def User_find_unique_id_def
      User_update_absent UpdateUserDetailsResponse_init_def added_def)

theorem C5_absent_user_witness:
  "fst (updateUser env_up 7 (Some ''dan@example.com'') None sample_world) =
     Inl (ValidationError ''1 validation error for UpdateUserDetailsResponse: updated_user'')
   \<and> added sample_world (snd (updateUser env_up 7 (Some ''dan@example.com'') None sample_world))
       = [Db TUser Update]
   \<and> fst (updateUser env_up 7 None None sample_world) =
       Inl (ValidationError ''1 validation error for UpdateUserDetailsResponse: updated_user'')
   \<and> fst (deleteUserRole env_up 7 sample_world) =
       Inr \<lparr>rurr_success = False, rurr_message = ''User not found.''\<rparr>
   \<and> fst (addUserRole env_up 7 USER sample_world) =
       Inr \<lparr>murr_success = False, murr_message = ''No user found with ID 7.''\<rparr>"
proof -
  have h: "find (\<lambda>u. usr_id u = 7) (users (db sample_world)) = None"
    by (simp add: sample_defs)
  have v: "validation_message env_up ''UpdateUserDetailsResponse'' ''updated_user'' =
             ''1 validation error for UpdateUserDetailsResponse: updated_user''"
    by (simp add: env_up_def)
  have i: "str_int 7 = ''7''" by code_simp
  from C5_absent_user [OF h, of env_up USER "Some ''dan@example.com''" None]
    C5_absent_user [OF h, of env_up USER None None]
  show ?thesis
    by (simp add: v i)
qed

lemma submitEmoji_call_failed:
  assumes "fst (call_emoji_interpretation_service en emoji s) = Inl e"
  shows "submitEmoji en emoji s = (Inl e, log (HttpPost interpret_url emoji) s)"
proof (cases "call_emoji_interpretation_service en emoji s")
  case (Pair r s1)
  have "s1 = log (HttpPost interpret_url emoji) s"
    using call_world[of en emoji s] Pair by simp
  then show ?thesis using assms Pair by (simp add: submitEmoji_def)
qed

lemma call_fails:
  assumes "post en interpret_url emoji = Inr response"
      and "\<not> (200 \<le> reply_status response \<and> reply_status response \<le> 299)
           \<or> reply_explanation response = None \<or> reply_explanation response = Some []"
  shows "fst (call_emoji_interpretation_service en emoji s) =
           Inl (if 200 \<le> reply_status response \<and> reply_status response \<le> 299
                then ValueError ''No interpretation was returned from the service.''
                else HTTPStatusError (status_message en response))"
  using assms
  by (auto simp: call_emoji_interpretation_service_def raise_for_status_def Let_def)

text \<open>
  C7: when the one call of the interpretation API fails (no reply, a status outside
  200..299, or a reply without an explanation), submitEmoji raises the error of that call:
  the trace holds this one request and nothing else, and no table has changed. The
  handler catches the error and raises in its turn, so the request is answered with
  status 500.
\<close>

theorem C7_failed_call_surfaces:
  "(fst (call_emoji_interpretation_service en emoji s) = Inl e \<longrightarrow>
      fst (submitEmoji en emoji s) = Inl e
      \<and> db (snd (submitEmoji en emoji s)) = db s
      \<and> added s (snd (submitEmoji en emoji s)) = [HttpPost interpret_url emoji]
      \<and> fst (api_post_submitEmoji en emoji s) = Inl (AttributeError dict_encode_message)
      \<and> status_of_raise (AttributeError dict_encode_message) = 500
      \<and> db (snd (api_post_submitEmoji en emoji s)) = db s
      \<and> added s (snd (api_post_submitEmoji en emoji s)) = [HttpPost interpret_url emoji])
   \<and> (post en interpret_url emoji = Inr response
        \<and> (\<not> (200 \<le> reply_status response \<and> reply_status response \<le> 299)
            \<or> reply_explanation response = None \<or> reply_explanation response = Some []) \<longrightarrow>
        fst (call_emoji_interpretation_service en emoji s) =
          Inl (if 200 \<le> reply_status response \<and> reply_status response \<le> 299
               then ValueError ''No interpretation was returned from the service.''
               else HTTPStatusError (status_message en response)))
   \<and> (post en interpret_url emoji = Inl e \<longrightarrow>
        fst (call_emoji_interpretation_service en emoji s) = Inl e)"
proof (intro conjI impI)
  assume a: "fst (call_emoji_interpretation_service en emoji s) = Inl e"
  note r = submitEmoji_call_failed[OF a]
  show "fst (submitEmoji en emoji s) = Inl e" by (simp add: r)
  show "db (snd (submitEmoji en emoji s)) = db s" by (simp add: r)
  show "added s (snd (submitEmoji en emoji s)) = [HttpPost interpret_url emoji]"
    by (simp add: r added_def)
  show "fst (api_post_submitEmoji en emoji s) = Inl (AttributeError dict_encode_message)"
    by (simp add: api_post_submitEmoji_eq r)
  show "status_of_raise (AttributeError dict_encode_message) = 500" by simp
  show "db (snd (api_post_submitEmoji en emoji s)) = db s"
    by (simp add: api_post_submitEmoji_eq r)
  show "added s (snd (api_post_submitEmoji en emoji s)) = [HttpPost interpret_url emoji]"
    by (simp add: api_post_submitEmoji_eq r added_def)
next
  assume "post en interpret_url emoji = Inr response
        \<and> (\<not> (200 \<le> reply_status response \<and> reply_status response \<le> 299)
            \<or> reply_explanation response = None \<or> reply_explanation response = Some [])"
  then show "fst (call_emoji_interpretation_service en emoji s) =
          Inl (if 200 \<le> reply_status response \<and> reply_status response \<le> 299
               then ValueError ''No interpretation was returned from the service.''
               else HTTPStatusError (status_message en response))"
    using call_fails[of en emoji response s] by blast
next
  assume "post en interpret_url emoji = Inl e"
  then show "fst (call_emoji_interpretation_service en emoji s) = Inl e"
    by (simp add: call_emoji_interpretation_service_def Let_def)
qed

theorem C7_failed_call_surfaces_witness:
  "fst (submitEmoji env_down '':D'' sample_world) = Inl (HTTPStatusError ''Server error'')
   \<and> db (snd (submitEmoji env_down '':D'' sample_world)) = sample_db
   \<and> added sample_world (snd (submitEmoji env_down '':D'' sample_world)) =
       [HttpPost interpret_url '':D'']
   \<and> fst (api_post_submitEmoji env_down '':D'' sample_world) =
       Inl (AttributeError dict_encode_message)
   \<and> status_of_raise (AttributeError dict_encode_message) = 500
   \<and> db (snd (api_post_submitEmoji env_down '':D'' sample_world)) = sample_db"
proof -
  have c: "fst (call_emoji_interpretation_service env_down '':D'' sample_world) =
             Inl (HTTPStatusError ''Server error'')"
    by (simp add: call_emoji_interpretation_service_def raise_for_status_def Let_def
        env_down_def env_up_def)
  have h: "fst (api_post_submitEmoji env_down '':D'' sample_world) =
             Inl (AttributeError dict_encode_message)"
    using submitEmoji_call_failed[OF c] by (simp add: api_post_submitEmoji_eq)
  from C7_failed_call_surfaces [of env_down "'':D''" sample_world
      "HTTPStatusError ''Server error''"] c h
  show ?thesis by (simp add: sample_world_def)
qed

lemma submitEmoji_db:
  "db (snd (submitEmoji en emoji s)) =
     (case fst (call_emoji_interpretation_service en emoji s) of
        Inl _ \<Rightarrow> db s
      | Inr x \<Rightarrow>
          if find (\<lambda>r. expl_emoji r = emoji) (emojiExplanations (db s)) = None
          then (db s)\<lparr>emojiExplanations := emojiExplanations (db s) @
                   [\<lparr>expl_id = next_id (map expl_id (emojiExplanations (db s))),
                     expl_emoji = emoji, expl_explanation = x\<rparr>]\<rparr>
          else db s)"
proof (cases "call_emoji_interpretation_service en emoji s")
  case (Pair r s1)
  have s1: "s1 = log (HttpPost interpret_url emoji) s"
    using call_world[of en emoji s] Pair by simp
  show ?thesis
    by (cases r)
      (simp_all add: submitEmoji_def Pair s1 EmojiExplanation_find_unique_emoji_def
        EmojiExplanation_create_def Let_def)
qed

lemma submitEmoji_returns:
  "fst (submitEmoji en emoji s) = Inr r \<Longrightarrow>
   \<exists>x. fst (call_emoji_interpretation_service en emoji s) = Inr x"
  by (cases "call_emoji_interpretation_service en emoji s")
    (auto simp: submitEmoji_def split: sum.splits)

lemma submitEmoji_stored:
  assumes "fst (submitEmoji en emoji s) = Inr r"
  shows "find (\<lambda>r. expl_emoji r = emoji) (emojiExplanations (db (snd (submitEmoji en emoji s))))
           \<noteq> None"
proof -
  obtain x where x: "fst (call_emoji_interpretation_service en emoji s) = Inr x"
    using submitEmoji_returns[OF assms] by blast
  show ?thesis
  proof (cases "find (\<lambda>r. expl_emoji r = emoji) (emojiExplanations (db s)) = None")
    case True
    then show ?thesis
      by (simp add: submitEmoji_db x find_append_new)
  next
    case False
    then show ?thesis by (auto simp: submitEmoji_db x)
  qed
qed

lemma submitEmoji_added:
  "\<exists>ops. added s (snd (submitEmoji en emoji s)) = HttpPost interpret_url emoji # ops
         \<and> list_all is_db ops"
  by (simp add: added_append[OF submitEmoji_trace] split: sum.splits)

text \<open>
  C8: every run of submitEmoji calls the interpretation API once, first: the events it
  adds are that request and then calls of the data-store client only. A row is created
  only when the emoji has none; when it has one the tables stay as they are, and the API
  has been called all the same: a second submission right after a first one that returned
  makes its own call and changes nothing.
\<close>

theorem C8_one_call_before_store:
  "(\<exists>ops. added s (snd (submitEmoji en emoji s)) = HttpPost interpret_url emoji # ops
          \<and> list_all is_db ops)
   \<and> http_calls (added s (snd (submitEmoji en emoji s))) = 1
   \<and> (find (\<lambda>r. expl_emoji r = emoji) (emojiExplanations (db s)) \<noteq> None \<longrightarrow>
        db (snd (submitEmoji en emoji s)) = db s)
   \<and> (\<forall>x. find (\<lambda>r. expl_emoji r = emoji) (emojiExplanations (db s)) = None
            \<and> fst (call_emoji_interpretation_service en emoji s) = Inr x \<longrightarrow>
        db (snd (submitEmoji en emoji s)) =
          (db s)\<lparr>emojiExplanations := emojiExplanations (db s) @
             [\<lparr>expl_id = next_id (map expl_id (emojiExplanations (db s))),
               expl_emoji = emoji, expl_explanation = x\<rparr>]\<rparr>)
   \<and> (\<forall>r. fst (submitEmoji en emoji s) = Inr r \<longrightarrow>
        http_calls (added (snd (submitEmoji en emoji s))
                      (snd (submitEmoji en' emoji (snd (submitEmoji en emoji s))))) = 1
        \<and> db (snd (submitEmoji en' emoji (snd (submitEmoji en emoji s))))
            = db (snd (submitEmoji en emoji s)))"
proof -
  have calls: "\<And>e t. http_calls (added t (snd (submitEmoji e emoji t))) = 1"
    by (simp add: added_append[OF submitEmoji_trace] http_calls_def split: sum.splits)
  have kept: "\<And>e t. find (\<lambda>r. expl_emoji r = emoji) (emojiExplanations (db t)) \<noteq> None \<Longrightarrow>
                db (snd (submitEmoji e emoji t)) = db t"
    by (simp add: submitEmoji_db split: sum.splits)
  show ?thesis
    using submitEmoji_added[of s en emoji] calls kept submitEmoji_stored[of en emoji s]
    by (auto simp: submitEmoji_db)
qed

theorem C8_one_call_before_store_witness:
  "added sample_world (snd (submitEmoji env_up '':)'' sample_world)) =
     [HttpPost interpret_url '':)'', Db TEmojiExplanation FindUnique]
   \<and> db (snd (submitEmoji env_up '':)'' sample_world)) = sample_db
   \<and> added sample_world (snd (submitEmoji env_up '':D'' sample_world)) =
       [HttpPost interpret_url '':D'', Db TEmojiExplanation FindUnique,
        Db TEmojiExplanation Create]"
proof -
  have c: "\<And>e. fst (call_emoji_interpretation_service env_up e sample_world) = Inr ''a face''"
    by (simp add: call_emoji_interpretation_service_def raise_for_status_def Let_def env_up_def)
  from C8_one_call_before_store [of sample_world env_up "'':)''" env_up]
  show ?thesis
    by (simp add: added_append[OF submitEmoji_trace] c) (simp add: sample_world_def sample_db_def)
qed

lemma fetch_outcomes:
  "fst (fetchEmojiExplanation en i s) =
     (case int_of en i of
        Inl e \<Rightarrow> Inl e
      | Inr n \<Rightarrow>
          (case find (\<lambda>r. expl_id r = n) (emojiExplanations (db s)) of
             None \<Rightarrow> Inl (ValueError (''No explanation found for emoji with id '' @ i))
           | Some row \<Rightarrow> Inr \<lparr>geer_emoji = expl_emoji row,
                               geer_explanation = Some (expl_explanation row)\<rparr>))"
  "fst (fetchExplanation en i s) =
     (case int_of en i of
        Inl e \<Rightarrow> Inl e
      | Inr n \<Rightarrow>
          (case find (\<lambda>r. expl_id r = n) (emojiExplanations (db s)) of
             None \<Rightarrow> Inl (ValueError ''No explanation found with the provided ID.'')
           | Some row \<Rightarrow> Inr \<lparr>eer_emoji = expl_emoji row,
                               eer_explanation = expl_explanation row\<rparr>))"
  by (simp_all add: fetchEmojiExplanation_def fetchExplanation_def
      EmojiExplanation_find_unique_id_def split: sum.splits option.splits)

lemma fetch_worlds:
  "snd (fetchEmojiExplanation en i s) = snd (fetchExplanation en i s)"
  "db (snd (fetchExplanation en i s)) = db s"
  by (simp_all add: fetchEmojiExplanation_world fetchExplanation_world split: sum.splits)

lemma route_shapes:
  "route_of E_fetchEmojiExplanation = Some (GET, [Some ''emoji'', Some ''explanation'', None])"
  "route_of E_fetchExplanation = Some (GET, [Some ''emoji'', Some ''explanation'', None])"
  by (simp_all add: route_of_def routes_def)

lemma seg_matches_shape: "shape p = shape q \<Longrightarrow> seg_matches p x = seg_matches q x"
  by (cases p; cases q) auto

lemma path_matches_shape:
  "map shape ps = map shape qs \<Longrightarrow> path_matches ps xs = path_matches qs xs"
proof (induction ps arbitrary: qs xs)
  case Nil
  then show ?case by simp
next
  case (Cons p ps)
  then obtain q qs' where q: "qs = q # qs'" by (cases qs) auto
  show ?case
  proof (cases xs)
    case Nil
    then show ?thesis using q by simp
  next
    case (Cons x xs')
    then show ?thesis
      using q Cons.prems Cons.IH[of qs' xs'] seg_matches_shape[of p q x] by auto
  qed
qed

lemma second_route_shadowed: "dispatch m path \<noteq> Some E_fetchExplanation"
proof
  assume a: "dispatch m path = Some E_fetchExplanation"
  then obtain r where r: "find (route_matches m path) routes = Some r"
    "snd (snd r) = E_fetchExplanation"
    by (auto simp: dispatch_def)
  have n: "\<not> route_matches m path
          (GET, [Lit ''emoji'', Lit ''explanation'', Param ''emoji_id''], E_fetchEmojiExplanation)"
    using r by (auto simp: routes_def split: if_splits)
  have y: "route_matches m path r"
    using r(1) by (auto simp: find_Some_iff)
  have e: "r = (GET, [Lit ''emoji'', Lit ''explanation'', Param ''id''], E_fetchExplanation)"
    using r by (auto simp: routes_def split: if_splits)
  have "path_matches [Lit ''emoji'', Lit ''explanation'', Param ''emoji_id''] path
        = path_matches [Lit ''emoji'', Lit ''explanation'', Param ''id''] path"
    by (rule path_matches_shape) simp
  with n y e show False by (simp add: route_matches_def)
qed

lemma sample_int_1: "sample_int ''1'' = Inr 1"
  by (simp add: sample_int_def)

lemma sample_int_7: "sample_int ''7'' = Inr 7"
  by (simp add: sample_int_def)

lemma fetch_handlers:
  "fst (api_get_fetchEmojiExplanation en i s) =
     (case fst (fetchEmojiExplanation en i s) of
        Inl e \<Rightarrow> Inl (AttributeError dict_encode_message) | Inr res \<Rightarrow> Inr (Typed res))"
  "fst (api_get_fetchExplanation en i s) =
     (case fst (fetchExplanation en i s) of
        Inl e \<Rightarrow> Inl (AttributeError dict_encode_message) | Inr res \<Rightarrow> Inr (Typed res))"
  by (simp_all add: api_get_fetchEmojiExplanation_def api_get_fetchExplanation_def
      except_clause_raises split: prod.splits sum.splits)

text \<open>
  C9: fetchEmojiExplanation and fetchExplanation do the same. Both convert the id with
  \<^verbatim>\<open>int\<close> and raise its error alike; both make the same lookup and leave the same world,
  with the tables unchanged; when no row has the id both raise a ValueError (the first
  with the message "No explanation found for emoji with id ...", the second with "No
  explanation found with the provided ID."); otherwise both return the emoji and the
  explanation of the row. Their handlers return these results, and raise the same
  exception whenever the services raise. Their routes have the same method and the same
  pattern, and the router, which takes the first route that matches, never reaches the
  second.
\<close>

theorem C9_fetch_equivalence:
  "snd (fetchEmojiExplanation en i s) = snd (fetchExplanation en i s)
   \<and> db (snd (fetchExplanation en i s)) = db s
   \<and> (\<forall>e. int_of en i = Inl e \<longrightarrow>
         fst (fetchEmojiExplanation en i s) = Inl e \<and> fst (fetchExplanation en i s) = Inl e)
   \<and> (\<forall>n. int_of en i = Inr n
           \<and> find (\<lambda>r. expl_id r = n) (emojiExplanations (db s)) = None \<longrightarrow>
         fst (fetchEmojiExplanation en i s) =
           Inl (ValueError (''No explanation found for emoji with id '' @ i))
         \<and> fst (fetchExplanation en i s) =
             Inl (ValueError ''No explanation found with the provided ID.''))
   \<and> (\<forall>n row. int_of en i = Inr n
           \<and> find (\<lambda>r. expl_id r = n) (emojiExplanations (db s)) = Some row \<longrightarrow>
         fst (fetchEmojiExplanation en i s) =
           Inr \<lparr>geer_emoji = expl_emoji row, geer_explanation = Some (expl_explanation row)\<rparr>
         \<and> fst (fetchExplanation en i s) =
             Inr \<lparr>eer_emoji = expl_emoji row, eer_explanation = expl_explanation row\<rparr>
         \<and> fst (api_get_fetchEmojiExplanation en i s) =
             Inr (Typed \<lparr>geer_emoji = expl_emoji row,
                         geer_explanation = Some (expl_explanation row)\<rparr>)
         \<and> fst (api_get_fetchExplanation en i s) =
             Inr (Typed \<lparr>eer_emoji = expl_emoji row, eer_explanation = expl_explanation row\<rparr>))
   \<and> (\<forall>e. fst (fetchEmojiExplanation en i s) = Inl e \<longrightarrow>
         (\<exists>e'. fst (fetchExplanation en i s) = Inl e')
         \<and> fst (api_get_fetchEmojiExplanation en i s) = Inl (AttributeError dict_encode_message)
         \<and> fst (api_get_fetchExplanation en i s) = Inl (AttributeError dict_encode_message))
   \<and> snd (api_get_fetchEmojiExplanation en i s) = snd (api_get_fetchExplanation en i s)
   \<and> route_of E_fetchEmojiExplanation = route_of E_fetchExplanation
   \<and> route_of E_fetchExplanation = Some (GET, [Some ''emoji'', Some ''explanation'', None])
   \<and> dispatch m path \<noteq> Some E_fetchExplanation"
proof -
  have w: "snd (api_get_fetchEmojiExplanation en i s) = snd (api_get_fetchExplanation en i s)"
    using fetch_worlds(1)[of en i s]
    by (auto simp: api_get_fetchEmojiExplanation_def api_get_fetchExplanation_def
        except_clause_raises split: prod.splits sum.splits)
  have r: "\<forall>e. fst (fetchEmojiExplanation en i s) = Inl e \<longrightarrow>
         (\<exists>e'. fst (fetchExplanation en i s) = Inl e')
         \<and> fst (api_get_fetchEmojiExplanation en i s) = Inl (AttributeError dict_encode_message)
         \<and> fst (api_get_fetchExplanation en i s) = Inl (AttributeError dict_encode_message)"
    by (auto simp: fetch_handlers fetch_outcomes split: sum.splits option.splits)
  show ?thesis
    using second_route_shadowed[of m path] w r
    by (simp add: fetch_outcomes fetch_worlds route_shapes fetch_handlers)
qed

theorem C9_fetch_equivalence_witness:
  "fst (fetchEmojiExplanation env_up ''1'' sample_world) =
     Inr \<lparr>geer_emoji = '':)'', geer_explanation = Some ''a smile''\<rparr>
   \<and> fst (fetchExplanation env_up ''1'' sample_world) =
       Inr \<lparr>eer_emoji = '':)'', eer_explanation = ''a smile''\<rparr>
   \<and> fst (fetchEmojiExplanation env_up ''7'' sample_world) =
       Inl (ValueError ''No explanation found for emoji with id 7'')
   \<and> fst (fetchExplanation env_up ''7'' sample_world) =
       Inl (ValueError ''No explanation found with the provided ID.'')
   \<and> fst (api_get_fetchEmojiExplanation env_up ''7'' sample_world) =
       Inl (AttributeError dict_encode_message)
   \<and> fst (api_get_fetchExplanation env_up ''7'' sample_world) =
       Inl (AttributeError dict_encode_message)
   \<and> dispatch GET [''emoji'', ''explanation'', ''1''] = Some E_fetchEmojiExplanation"
proof -
  have p1: "int_of env_up ''1'' = Inr 1" by (simp add: env_up_def sample_int_1)
  have p7: "int_of env_up ''7'' = Inr 7" by (simp add: env_up_def sample_int_7)
  have f1: "find (\<lambda>r. expl_id r = 1) (emojiExplanations (db sample_world)) =
             Some \<lparr>expl_id = 1, expl_emoji = '':)'', expl_explanation = ''a smile''\<rparr>"
    by (simp add: sample_defs)
  have f7: "find (\<lambda>r. expl_id r = 7) (emojiExplanations (db sample_world)) = None"
    by (simp add: sample_defs)
  have d: "dispatch GET [''emoji'', ''explanation'', ''1''] = Some E_fetchEmojiExplanation"
    by (simp add: dispatch_def routes_def route_matches_def)
  from C9_fetch_equivalence [of env_up "''1''" sample_world GET
      "[''emoji'', ''explanation'', ''1'']"]
    C9_fetch_equivalence [of env_up "''7''" sample_world GET
      "[''emoji'', ''explanation'', ''1'']"]
    p1 p7 f1 f7 d
  show ?thesis by simp
qed

lemma find_many_rows:
  "fst (EmojiRequest_find_many_status st n s) = rows \<Longrightarrow>
   length rows = min n (length (filter (\<lambda>r. req_status r = st) (emojiRequests (db s))))
   \<and> set rows \<subseteq> {r \<in> set (emojiRequests (db s)). req_status r = st}
   \<and> sorted_wrt (\<lambda>a b. req_createdAt b \<le> req_createdAt a) rows
   \<and> (\<forall>a \<in> set rows. \<forall>b \<in> set (emojiRequests (db s)).
         req_status b = st \<and> b \<notin> set rows \<longrightarrow> req_createdAt b \<le> req_createdAt a)"
proof -
  assume a: "fst (EmojiRequest_find_many_status st n s) = rows"
  let ?xs = "filter (\<lambda>r. req_status r = st) (emojiRequests (db s))"
  let ?ys = "sort_key (\<lambda>r. - req_createdAt r) ?xs"
  let ?P = "\<lambda>a b. req_createdAt b \<le> req_createdAt a"
  have rows: "rows = take n ?ys" using a by (simp add: EmojiRequest_find_many_status_def)
  have "sorted (map (\<lambda>r. - req_createdAt r) ?ys)" by (rule sorted_sort_key)
  then have sy: "sorted_wrt ?P ?ys" by (simp add: sorted_map)
  then have s: "sorted_wrt ?P rows" unfolding rows by (rule sorted_wrt_take)
  have "set rows \<subseteq> set ?ys" unfolding rows by (rule set_take_subset)
  then have m: "set rows \<subseteq> {r \<in> set (emojiRequests (db s)). req_status r = st}" by auto
  have l: "length rows = min n (length ?xs)" by (simp add: rows min.commute)
  have "sorted_wrt ?P (take n ?ys @ drop n ?ys)" using sy by simp
  then have td: "\<forall>x \<in> set (take n ?ys). \<forall>y \<in> set (drop n ?ys). ?P x y"
    unfolding sorted_wrt_append by blast
  have late: "\<forall>a \<in> set rows. \<forall>b \<in> set (emojiRequests (db s)).
         req_status b = st \<and> b \<notin> set rows \<longrightarrow> req_createdAt b \<le> req_createdAt a"
  proof (intro ballI impI)
    fix x b assume x: "x \<in> set rows" and b: "b \<in> set (emojiRequests (db s))"
      and c: "req_status b = st \<and> b \<notin> set rows"
    have "b \<in> set ?ys" using b c by simp
    then have "b \<in> set (take n ?ys) \<union> set (drop n ?ys)"
      by (metis append_take_drop_id set_append)
    then have "b \<in> set (drop n ?ys)" using c rows by simp
    then show "req_createdAt b \<le> req_createdAt x" using td x rows by blast
  qed
  show ?thesis using s m l late by simp
qed

lemma find_many_empty:
  "fst (EmojiRequest_find_many_status st (Suc n) s) = []
   \<longleftrightarrow> filter (\<lambda>r. req_status r = st) (emojiRequests (db s)) = []"
proof -
  let ?xs = "filter (\<lambda>r. req_status r = st) (emojiRequests (db s))"
  have "length (sort_key (\<lambda>r. - req_createdAt r) ?xs) = length ?xs" by simp
  then have "sort_key (\<lambda>r. - req_createdAt r) ?xs = [] \<longleftrightarrow> ?xs = []"
    by (metis length_0_conv)
  then show ?thesis by (simp add: EmojiRequest_find_many_status_def take_Suc split: list.splits)
qed

lemma fetchRecentEmojis_eq:
  "fetchRecentEmojis s =
     (let rows = fst (EmojiRequest_find_many_status ''EXPLAINED'' 10 s) in
      if rows = [] then Inl (HTTPException 404 ''No recent emojis found.'')
      else Inr \<lparr>emojis = map (\<lambda>r. \<lparr>ei_emoji = req_emoji r,
                                      ei_explanation = req_explanation r\<rparr>) rows\<rparr>,
      log (Db TEmojiRequest FindMany) s)"
  by (simp add: fetchRecentEmojis_def EmojiRequest_find_many_status_def Let_def)

text \<open>
  C10: fetchRecentEmojis never changes a table. When it returns, its entries are those of
  the ten latest rows of EmojiRequest with status "EXPLAINED" (of all of them when they
  are fewer), in descending order of createdAt: no row with that status that is left out
  is later than a row that is in. It returns whenever a row has that status; when none
  has, it raises an HTTPException with status 404, which its handler catches; the except
  clause raises in its turn, and the request is answered with status 500, not 404.
\<close>

theorem C10_fetchRecentEmojis:
  "db (snd (fetchRecentEmojis s)) = db s
   \<and> (\<forall>res. fst (fetchRecentEmojis s) = Inr res \<longrightarrow>
         length (emojis res) \<le> 10
         \<and> (\<exists>rows. emojis res =
                      map (\<lambda>r. \<lparr>ei_emoji = req_emoji r, ei_explanation = req_explanation r\<rparr>) rows
                \<and> length rows =
                    min 10 (length (filter (\<lambda>r. req_status r = ''EXPLAINED'')
                                      (emojiRequests (db s))))
                \<and> set rows \<subseteq> {r \<in> set (emojiRequests (db s)). req_status r = ''EXPLAINED''}
                \<and> sorted_wrt (\<lambda>a b. req_createdAt b \<le> req_createdAt a) rows
                \<and> (\<forall>a \<in> set rows. \<forall>b \<in> set (emojiRequests (db s)).
                      req_status b = ''EXPLAINED'' \<and> b \<notin> set rows \<longrightarrow>
                      req_createdAt b \<le> req_createdAt a)))
   \<and> (filter (\<lambda>r. req_status r = ''EXPLAINED'') (emojiRequests (db s)) \<noteq> [] \<longrightarrow>
         (\<exists>res. fst (fetchRecentEmojis s) = Inr res))
   \<and> (filter (\<lambda>r. req_status r = ''EXPLAINED'') (emojiRequests (db s)) = [] \<longrightarrow>
         fst (fetchRecentEmojis s) = Inl (HTTPException 404 ''No recent emojis found.'')
         \<and> fst (api_get_fetchRecentEmojis s) = Inl (AttributeError dict_encode_message)
         \<and> status_of_raise (AttributeError dict_encode_message) = 500
         \<and> db (snd (api_get_fetchRecentEmojis s)) = db s)"
proof -
  let ?rows = "fst (EmojiRequest_find_many_status ''EXPLAINED'' 10 s)"
  let ?Q = "\<lambda>res rows. emojis res =
                      map (\<lambda>r. \<lparr>ei_emoji = req_emoji r, ei_explanation = req_explanation r\<rparr>) rows
                \<and> length rows =
                    min 10 (length (filter (\<lambda>r. req_status r = ''EXPLAINED'')
                                      (emojiRequests (db s))))
                \<and> set rows \<subseteq> {r \<in> set (emojiRequests (db s)). req_status r = ''EXPLAINED''}
                \<and> sorted_wrt (\<lambda>a b. req_createdAt b \<le> req_createdAt a) rows
                \<and> (\<forall>a \<in> set rows. \<forall>b \<in> set (emojiRequests (db s)).
                      req_status b = ''EXPLAINED'' \<and> b \<notin> set rows \<longrightarrow>
                      req_createdAt b \<le> req_createdAt a)"
  have ten: "(10::nat) = Suc 9" by simp
  have e: "?rows = [] \<longleftrightarrow> filter (\<lambda>r. req_status r = ''EXPLAINED'') (emojiRequests (db s)) = []"
    unfolding ten by (rule find_many_empty)
  note p = find_many_rows[of "''EXPLAINED''" 10 s ?rows, OF refl]
  have 1: "db (snd (fetchRecentEmojis s)) = db s"
    by (simp add: fetchRecentEmojis_world)
  have 2: "\<forall>res. fst (fetchRecentEmojis s) = Inr res \<longrightarrow>
         length (emojis res) \<le> 10 \<and> (\<exists>rows. ?Q res rows)"
  proof (intro allI impI)
    fix res assume "fst (fetchRecentEmojis s) = Inr res"
    then have r: "emojis res =
        map (\<lambda>r. \<lparr>ei_emoji = req_emoji r, ei_explanation = req_explanation r\<rparr>) ?rows"
      by (auto simp: fetchRecentEmojis_eq Let_def split: if_splits)
    have q: "?Q res ?rows" using r p by blast
    have "length (emojis res) \<le> 10" using r p by simp
    then show "length (emojis res) \<le> 10 \<and> (\<exists>rows. ?Q res rows)"
      using q by blast
  qed
  have 3: "filter (\<lambda>r. req_status r = ''EXPLAINED'') (emojiRequests (db s)) \<noteq> [] \<longrightarrow>
         (\<exists>res. fst (fetchRecentEmojis s) = Inr res)"
    using e by (simp add: fetchRecentEmojis_eq Let_def)
  have 4: "filter (\<lambda>r. req_status r = ''EXPLAINED'') (emojiRequests (db s)) = [] \<longrightarrow>
         fst (fetchRecentEmojis s) = Inl (HTTPException 404 ''No recent emojis found.'')
         \<and> fst (api_get_fetchRecentEmojis s) = Inl (AttributeError dict_encode_message)
         \<and> status_of_raise (AttributeError dict_encode_message) = 500
         \<and> db (snd (api_get_fetchRecentEmojis s)) = db s"
    by (simp add: fetchRecentEmojis_none api_get_fetchRecentEmojis_def except_clause_raises)
  from 1 2 3 4 show ?thesis by blast
qed

theorem C10_fetchRecentEmojis_witness:
  "fst (fetchRecentEmojis sample_world) =
     Inr \<lparr>emojis = [\<lparr>ei_emoji = '':D'', ei_explanation = Some ''a grin''\<rparr>,
                    \<lparr>ei_emoji = '':)'', ei_explanation = Some ''a smile''\<rparr>]\<rparr>
   \<and> db (snd (fetchRecentEmojis sample_world)) = sample_db
   \<and> fst (fetchRecentEmojis empty_world) = Inl (HTTPException 404 ''No recent emojis found.'')
   \<and> fst (api_get_fetchRecentEmojis empty_world) = Inl (AttributeError dict_encode_message)
   \<and> status_of_raise (AttributeError dict_encode_message) = 500"
proof -
  have a: "fst (fetchRecentEmojis sample_world) =
     Inr \<lparr>emojis = [\<lparr>ei_emoji = '':D'', ei_explanation = Some ''a grin''\<rparr>,
                    \<lparr>ei_emoji = '':)'', ei_explanation = Some ''a smile''\<rparr>]\<rparr>"
    by (simp add: fetchRecentEmojis_def EmojiRequest_find_many_status_def sample_defs)
  have b: "filter (\<lambda>r. req_status r = ''EXPLAINED'') (emojiRequests (db empty_world)) = []"
    by (simp add: empty_world_def)
  from C10_fetchRecentEmojis [of sample_world] C10_fetchRecentEmojis [of empty_world] a b
  show ?thesis by (simp add: sample_world_def)
qed

end
